theory Spec2Isabelle
  imports Complex_Main "HOL-Library.Char_ord" "HOL-Library.List_Lexorder"
    "HOL-Library.Option_ord" "HOL-Library.Product_Lexorder"
begin

section \<open>Flare store: data model\<close>

text \<open>
  A flare dictionary as the parsers of \<^verbatim>\<open>flare_tracker_simple.py\<close> build it and as
  \<^verbatim>\<open>store_flares\<close> reads it. A key whose value is \<^verbatim>\<open>None\<close>, or that is absent and read
  with \<^verbatim>\<open>flare.get\<close>, is \<open>None\<close> here. Timestamps are whole epoch seconds.
\<close>

record flare =
  event_date :: string
  event_time :: "string option"
  event_timestamp :: "int option"
  flare_class :: string
  region :: "string option"
  location :: "string option"
  peak_time :: "string option"
  end_time :: "string option"
  raw_text :: string

text \<open>
  A row of the table \<^verbatim>\<open>flares\<close>: the columns of a flare dictionary and the columns
  \<^verbatim>\<open>id\<close>, \<^verbatim>\<open>scraped_at\<close> and \<^verbatim>\<open>source\<close>. A \<^verbatim>\<open>NULL\<close> column is \<open>None\<close>.
\<close>

record flare_row = flare +
  row_id :: nat
  scraped_at :: int
  source :: string

text \<open>
  The table with the counter of its \<^verbatim>\<open>AUTOINCREMENT\<close> key: the largest id ever given.
\<close>

record flare_db =
  rows :: "flare_row list"
  seq :: nat

section \<open>Retention: \<^verbatim>\<open>cleanup_old_flares\<close>\<close>

text \<open>
  The \<^verbatim>\<open>WHERE\<close> clause of the \<^verbatim>\<open>DELETE\<close>:
  \<^verbatim>\<open>event_timestamp < ? AND event_timestamp IS NOT NULL\<close>.
\<close>

definition delete_where :: "int \<Rightarrow> flare_row \<Rightarrow> bool" where
  "delete_where cutoff_timestamp r =
     (case event_timestamp r of
        None \<Rightarrow> False
      | Some t \<Rightarrow> t < cutoff_timestamp)"

text \<open>
  \<open>now\<close> is the clock reading in whole epoch seconds; the result is the row count of the
  \<^verbatim>\<open>DELETE\<close> and the table after it.
\<close>

definition cleanup_old_flares :: "int \<Rightarrow> int \<Rightarrow> flare_db \<Rightarrow> nat \<times> flare_db" where
  "cleanup_old_flares now hours db =
     (let cutoff_timestamp = now - 3600 * hours;
          kept = filter (\<lambda>r. \<not> delete_where cutoff_timestamp r) (rows db)
      in (length (rows db) - length kept, db\<lparr>rows := kept\<rparr>))"

section \<open>Python values: truthiness, class strings, numbers\<close>

text \<open>
  \<^verbatim>\<open>if v:\<close> on an optional string or integer: \<^verbatim>\<open>None\<close>, the empty string and \<open>0\<close>
  are false.
\<close>

definition truthy_str :: "string option \<Rightarrow> bool" where
  "truthy_str v = (case v of None \<Rightarrow> False | Some s \<Rightarrow> s \<noteq> [])"

definition truthy_int :: "int option \<Rightarrow> bool" where
  "truthy_int v = (case v of None \<Rightarrow> False | Some n \<Rightarrow> n \<noteq> 0)"

definition is_digit :: "char \<Rightarrow> bool" where
  "is_digit c = (c \<in> set ''0123456789'')"

definition is_upper :: "char \<Rightarrow> bool" where
  "is_upper c = (c \<in> set ''ABCDEFGHIJKLMNOPQRSTUVWXYZ'')"

definition digit_value :: "char \<Rightarrow> nat" where
  "digit_value c = of_char c - 48"

definition digits_value :: "string \<Rightarrow> nat" where
  "digits_value ds = foldl (\<lambda>a c. 10 * a + digit_value c) 0 ds"

text \<open>
  The number that \<^verbatim>\<open>float\<close> reads from the digits \<open>ip\<close>, a point and the digits \<open>fp\<close>.
  Magnitudes are kept as exact decimal fractions: the rounding of binary floating point
  is not part of the model.
\<close>

definition decimal_value :: "string \<Rightarrow> string \<Rightarrow> rat" where
  "decimal_value ip fp = of_nat (digits_value ip) + of_nat (digits_value fp) / 10 ^ length fp"

text \<open>
  \<^verbatim>\<open>re.match(r'([A-Z])(\d+\.?\d*)', flare_class)\<close> with \<^verbatim>\<open>group(1)\<close> and
  \<^verbatim>\<open>float(group(2))\<close>: a capital letter, one or more digits, an optional point, digits.
  \<open>None\<close> is no match.
\<close>

definition magnitude_match :: "string \<Rightarrow> (char \<times> rat) option" where
  "magnitude_match fc =
     (case fc of
        [] \<Rightarrow> None
      | c # rest \<Rightarrow>
          if \<not> is_upper c then None
          else
            let ip = takeWhile is_digit rest; after = dropWhile is_digit rest
            in if ip = [] then None
               else (case after of
                       [] \<Rightarrow> Some (c, decimal_value ip [])
                     | d # fp \<Rightarrow>
                         if d = CHR ''.'' then Some (c, decimal_value ip (takeWhile is_digit fp))
                         else Some (c, decimal_value ip [])))"

section \<open>Flare resolver: \<^verbatim>\<open>store_flares\<close>\<close>

text \<open>
  \<^verbatim>\<open>ORDER BY event_timestamp DESC\<close>: rows with a timestamp, latest first, then the rows
  whose timestamp is \<^verbatim>\<open>NULL\<close>. Rows with equal timestamps keep their table order.
\<close>

definition order_by_timestamp_desc :: "flare_row list \<Rightarrow> flare_row list" where
  "order_by_timestamp_desc rs =
     sort_key (\<lambda>r. - the (event_timestamp r)) (filter (\<lambda>r. event_timestamp r \<noteq> None) rs)
     @ filter (\<lambda>r. event_timestamp r = None) rs"

text \<open>
  Lines 348-365: the rows of the incoming flare's date, or, when the incoming class has no
  magnitude (\<open>mm = None\<close>), the rows of that date with exactly that class string.
\<close>

definition existing_candidates :: "(char \<times> rat) option \<Rightarrow> flare \<Rightarrow> flare_db \<Rightarrow> flare_row list" where
  "existing_candidates mm f db =
     (case mm of
        Some _ \<Rightarrow> order_by_timestamp_desc (filter (\<lambda>r. event_date r = event_date f) (rows db))
      | None \<Rightarrow> filter (\<lambda>r. event_date r = event_date f \<and> flare_class r = flare_class f) (rows db))"

text \<open>
  Lines 373-380, the magnitude tolerance: with an incoming letter and magnitude, the
  existing class must parse, carry the same letter, and a magnitude in
  \<open>[magnitude - 0.2, magnitude + 0.2]\<close>; a row that fails is skipped (\<^verbatim>\<open>continue\<close>).
\<close>

definition within_tolerance :: "(char \<times> rat) option \<Rightarrow> flare_row \<Rightarrow> bool" where
  "within_tolerance mm ex =
     (case mm of
        None \<Rightarrow> True
      | Some (class_letter, magnitude) \<Rightarrow>
          (case magnitude_match (flare_class ex) of
             None \<Rightarrow> False
           | Some (ex_letter, ex_magnitude) \<Rightarrow>
               ex_letter = class_letter \<and>
               magnitude - 2 / 10 \<le> ex_magnitude \<and> ex_magnitude \<le> magnitude + 2 / 10))"

text \<open>
  The five conditions of lines 389-462, each without the guard \<^verbatim>\<open>not match_found\<close>.
  \<open>strptime\<close> stands for
  \<^verbatim>\<open>int(datetime.strptime(s, "%Y-%m-%d %H:%M:%S").replace(tzinfo=utc).timestamp())\<close>,
  with \<open>None\<close> for the \<^verbatim>\<open>ValueError\<close> that the code catches; \<open>src\<close> is the argument
  \<^verbatim>\<open>source\<close> of \<^verbatim>\<open>store_flares\<close>.
\<close>

definition timestamp_match :: "flare \<Rightarrow> flare_row \<Rightarrow> bool" where
  "timestamp_match f ex =
     (case event_timestamp f of
        None \<Rightarrow> False
      | Some incoming_ts \<Rightarrow>
          (case event_timestamp ex of
             None \<Rightarrow> False
           | Some ex_timestamp \<Rightarrow> \<bar>incoming_ts - ex_timestamp\<bar> \<le> 300))"

definition noaa_time_lmsal_peak :: "(string \<Rightarrow> int option) \<Rightarrow> flare \<Rightarrow> string \<Rightarrow> flare_row \<Rightarrow> bool" where
  "noaa_time_lmsal_peak strptime f src ex =
     (src = ''NOAA'' \<and> truthy_int (event_timestamp f) \<and>
      source ex = ''LMSAL'' \<and> truthy_str (peak_time ex) \<and>
      (case (event_timestamp f, peak_time ex) of
         (Some ts, Some ex_peak) \<Rightarrow>
           (case strptime (event_date f @ '' '' @ ex_peak) of
              None \<Rightarrow> False
            | Some peak_timestamp \<Rightarrow> \<bar>ts - peak_timestamp\<bar> \<le> 120)
       | _ \<Rightarrow> False))"

definition lmsal_peak_noaa_time :: "(string \<Rightarrow> int option) \<Rightarrow> flare \<Rightarrow> string \<Rightarrow> flare_row \<Rightarrow> bool" where
  "lmsal_peak_noaa_time strptime f src ex =
     (src = ''LMSAL'' \<and> truthy_str (peak_time f) \<and>
      source ex = ''NOAA'' \<and> truthy_int (event_timestamp ex) \<and>
      (case (peak_time f, event_timestamp ex) of
         (Some peak, Some ex_timestamp) \<Rightarrow>
           (case strptime (event_date f @ '' '' @ peak) of
              None \<Rightarrow> False
            | Some peak_timestamp \<Rightarrow> \<bar>peak_timestamp - ex_timestamp\<bar> \<le> 120)
       | _ \<Rightarrow> False))"

definition lmsal_peaks :: "(string \<Rightarrow> int option) \<Rightarrow> flare \<Rightarrow> string \<Rightarrow> flare_row \<Rightarrow> bool" where
  "lmsal_peaks strptime f src ex =
     (src = ''LMSAL'' \<and> source ex = ''LMSAL'' \<and>
      truthy_str (peak_time f) \<and> truthy_str (peak_time ex) \<and>
      (case (peak_time f, peak_time ex) of
         (Some peak, Some ex_peak) \<Rightarrow>
           (case strptime (event_date f @ '' '' @ peak) of
              None \<Rightarrow> False
            | Some incoming_peak_timestamp \<Rightarrow>
                (case strptime (event_date f @ '' '' @ ex_peak) of
                   None \<Rightarrow> False
                 | Some existing_peak_timestamp \<Rightarrow>
                     \<bar>incoming_peak_timestamp - existing_peak_timestamp\<bar> \<le> 60))
       | _ \<Rightarrow> False))"

definition location_window :: "flare \<Rightarrow> flare_row \<Rightarrow> bool" where
  "location_window f ex =
     (truthy_str (location f) \<and> truthy_str (location ex) \<and> location f = location ex \<and>
      truthy_int (event_timestamp f) \<and> truthy_int (event_timestamp ex) \<and>
      (case (event_timestamp f, event_timestamp ex) of
         (Some ts, Some ex_timestamp) \<Rightarrow> \<bar>ts - ex_timestamp\<bar> \<le> 1800
       | _ \<Rightarrow> False))"

text \<open>
  The chain of lines 383-462. \<^verbatim>\<open>match_found\<close> starts \<^verbatim>\<open>False\<close>; each later \<^verbatim>\<open>if\<close> is
  guarded by \<^verbatim>\<open>not match_found\<close>, so one statement at most sets it. \<open>match_reason\<close> is
  the number of that statement, \<open>None\<close> when \<^verbatim>\<open>match_found\<close> stays \<^verbatim>\<open>False\<close>.
\<close>

definition match_reason :: "(string \<Rightarrow> int option) \<Rightarrow> flare \<Rightarrow> string \<Rightarrow> flare_row \<Rightarrow> nat option" where
  "match_reason strptime f src ex =
     (if timestamp_match f ex then Some 1
      else if noaa_time_lmsal_peak strptime f src ex then Some 2
      else if lmsal_peak_noaa_time strptime f src ex then Some 3
      else if lmsal_peaks strptime f src ex then Some 4
      else if location_window f ex then Some 5
      else None)"

definition match_found :: "(string \<Rightarrow> int option) \<Rightarrow> flare \<Rightarrow> string \<Rightarrow> flare_row \<Rightarrow> bool" where
  "match_found strptime f src ex = (match_reason strptime f src ex \<noteq> None)"

text \<open>
  The loop of lines 369-466 over the candidate rows: a row outside the tolerance is
  skipped, the first row with \<^verbatim>\<open>match_found\<close> becomes \<^verbatim>\<open>existing\<close> (\<^verbatim>\<open>break\<close>).
\<close>

fun find_existing ::
  "(string \<Rightarrow> int option) \<Rightarrow> flare \<Rightarrow> string \<Rightarrow> (char \<times> rat) option \<Rightarrow> flare_row list \<Rightarrow> flare_row option"
where
  "find_existing strptime f src mm [] = None"
| "find_existing strptime f src mm (candidate # cs) =
     (if \<not> within_tolerance mm candidate then find_existing strptime f src mm cs
      else if match_found strptime f src candidate then Some candidate
      else find_existing strptime f src mm cs)"

text \<open>
  The dictionary \<^verbatim>\<open>updates\<close> of lines 476-515: a column that the dictionary has no key
  for is \<open>None\<close>.
\<close>

record updates =
  set_flare_class :: "string option"
  set_region :: "string option"
  set_location :: "string option"
  set_event_time :: "string option"
  set_event_timestamp :: "int option"
  set_peak_time :: "string option"
  set_end_time :: "string option"
  set_source :: "string option"

definition prefer_incoming :: "string \<Rightarrow> flare_row \<Rightarrow> bool" where
  "prefer_incoming src ex = (src = ''LMSAL'' \<and> source ex = ''NOAA'')"

definition updates_for :: "flare \<Rightarrow> string \<Rightarrow> flare_row \<Rightarrow> updates" where
  "updates_for f src ex =
     \<lparr> set_flare_class =
         (if prefer_incoming src ex \<and> flare_class f \<noteq> flare_class ex
          then Some (flare_class f) else None),
       set_region =
         (if truthy_str (region f) \<and> (\<not> truthy_str (region ex) \<or> prefer_incoming src ex)
          then region f else None),
       set_location =
         (if truthy_str (location f) \<and> (\<not> truthy_str (location ex) \<or> prefer_incoming src ex)
          then location f else None),
       set_event_time =
         (if truthy_str (event_time f) \<and> (\<not> truthy_str (event_time ex) \<or> prefer_incoming src ex)
          then event_time f else None),
       set_event_timestamp =
         (if truthy_str (event_time f) \<and> (\<not> truthy_str (event_time ex) \<or> prefer_incoming src ex)
             \<and> truthy_int (event_timestamp f)
          then event_timestamp f else None),
       set_peak_time =
         (if truthy_str (peak_time f) \<and> (\<not> truthy_str (peak_time ex) \<or> prefer_incoming src ex)
          then peak_time f else None),
       set_end_time =
         (if truthy_str (end_time f) \<and> (\<not> truthy_str (end_time ex) \<or> prefer_incoming src ex)
          then end_time f else None),
       set_source = (if prefer_incoming src ex then Some src else None) \<rparr>"

text \<open>
  \<^verbatim>\<open>should_update\<close> is set with every key that \<^verbatim>\<open>updates\<close> receives, and only then.
\<close>

definition should_update :: "updates \<Rightarrow> bool" where
  "should_update u =
     (set_flare_class u \<noteq> None \<or> set_region u \<noteq> None \<or> set_location u \<noteq> None \<or>
      set_event_time u \<noteq> None \<or> set_peak_time u \<noteq> None \<or> set_end_time u \<noteq> None \<or>
      set_source u \<noteq> None)"

text \<open>
  The \<^verbatim>\<open>UPDATE flares SET ..., scraped_at = ?\<close> of lines 518-527 on one row.
\<close>

definition apply_updates :: "updates \<Rightarrow> int \<Rightarrow> flare_row \<Rightarrow> flare_row" where
  "apply_updates u now r =
     r\<lparr> flare_class := (case set_flare_class u of None \<Rightarrow> flare_class r | Some v \<Rightarrow> v),
        region := (case set_region u of None \<Rightarrow> region r | Some v \<Rightarrow> Some v),
        location := (case set_location u of None \<Rightarrow> location r | Some v \<Rightarrow> Some v),
        event_time := (case set_event_time u of None \<Rightarrow> event_time r | Some v \<Rightarrow> Some v),
        event_timestamp :=
          (case set_event_timestamp u of None \<Rightarrow> event_timestamp r | Some v \<Rightarrow> Some v),
        peak_time := (case set_peak_time u of None \<Rightarrow> peak_time r | Some v \<Rightarrow> Some v),
        end_time := (case set_end_time u of None \<Rightarrow> end_time r | Some v \<Rightarrow> Some v),
        source := (case set_source u of None \<Rightarrow> source r | Some v \<Rightarrow> v),
        scraped_at := now \<rparr>"

text \<open>
  The id of an inserted row: one more than the largest id that the table ever held.
\<close>

definition next_id :: "flare_db \<Rightarrow> nat" where
  "next_id db = Suc (fold max (map row_id (rows db)) (seq db))"

text \<open>The \<^verbatim>\<open>INSERT\<close> of lines 543-560.\<close>

definition new_row :: "flare \<Rightarrow> string \<Rightarrow> int \<Rightarrow> nat \<Rightarrow> flare_row" where
  "new_row f src now i =
     \<lparr> event_date = event_date f, event_time = event_time f,
       event_timestamp = event_timestamp f, flare_class = flare_class f,
       region = region f, location = location f, peak_time = peak_time f,
       end_time = end_time f, raw_text = raw_text f,
       row_id = i, scraped_at = now, source = src \<rparr>"

text \<open>
  One pass of the loop of lines 329-565 on the state \<open>(db, new_count, updated_count)\<close>.
  The store answers every statement: no \<^verbatim>\<open>sqlite3.Error\<close> is raised.
\<close>

definition store_flare ::
  "(string \<Rightarrow> int option) \<Rightarrow> string \<Rightarrow> int \<Rightarrow> flare_db \<times> nat \<times> nat \<Rightarrow> flare \<Rightarrow> flare_db \<times> nat \<times> nat"
where
  "store_flare strptime src now st f =
     (case st of (db, new_count, updated_count) \<Rightarrow>
        let mm = magnitude_match (flare_class f)
        in (case find_existing strptime f src mm (existing_candidates mm f db) of
              Some ex \<Rightarrow>
                (let u = updates_for f src ex
                 in if should_update u
                    then (db\<lparr>rows := map (\<lambda>r. if row_id r = row_id ex
                                               then apply_updates u now r else r) (rows db)\<rparr>,
                          new_count, updated_count + 1)
                    else (db, new_count, updated_count))
            | None \<Rightarrow>
                (db\<lparr>rows := rows db @ [new_row f src now (next_id db)], seq := next_id db\<rparr>,
                 new_count + 1, updated_count)))"

text \<open>\<^verbatim>\<open>store_flares\<close>: the number of new rows and the table after the batch.\<close>

definition store_flares ::
  "(string \<Rightarrow> int option) \<Rightarrow> int \<Rightarrow> flare list \<Rightarrow> string \<Rightarrow> flare_db \<Rightarrow> nat \<times> flare_db"
where
  "store_flares strptime now flares src db =
     (if flares = [] then (0, db)
      else case foldl (store_flare strptime src now) (db, 0, 0) flares of
             (db', new_count, updated_count) \<Rightarrow> (new_count, db'))"

section \<open>Flare queries: \<^verbatim>\<open>get_flares_last_24h\<close> and \<^verbatim>\<open>get_flares_summary\<close>\<close>

text \<open>
  A dictionary of the result: the six columns that the \<^verbatim>\<open>SELECT\<close> of lines 605-610 names.
\<close>

record flare_dict =
  d_event_date :: string
  d_event_time :: "string option"
  d_flare_class :: string
  d_region :: "string option"
  d_location :: "string option"
  d_raw_text :: string

definition select_columns :: "flare_row \<Rightarrow> flare_dict" where
  "select_columns r =
     \<lparr> d_event_date = event_date r, d_event_time = event_time r,
       d_flare_class = flare_class r, d_region = region r,
       d_location = location r, d_raw_text = raw_text r \<rparr>"

text \<open>\<^verbatim>\<open>WHERE event_timestamp >= ? OR event_timestamp IS NULL\<close>.\<close>

definition last_24h_where :: "int \<Rightarrow> flare_row \<Rightarrow> bool" where
  "last_24h_where cutoff_timestamp r =
     (case event_timestamp r of
        None \<Rightarrow> True
      | Some t \<Rightarrow> cutoff_timestamp \<le> t)"

definition get_flares_last_24h :: "int \<Rightarrow> flare_db \<Rightarrow> flare_dict list" where
  "get_flares_last_24h now db =
     (let cutoff_timestamp = now - 3600 * 24
      in map select_columns
           (order_by_timestamp_desc (filter (last_24h_where cutoff_timestamp) (rows db))))"

text \<open>\<^verbatim>\<open>flare_class.startswith(c)\<close> for a one-character prefix.\<close>

definition startswith :: "string \<Rightarrow> char \<Rightarrow> bool" where
  "startswith s c = (case s of [] \<Rightarrow> False | x # _ \<Rightarrow> x = c)"

text \<open>
  \<^verbatim>\<open>float(s)\<close> for a string of digits and points, which is all that
  \<^verbatim>\<open>re.sub(r'[^0-9.]', '', ...)\<close> leaves: digits with at most one point and at least one
  digit; \<open>None\<close> is the \<^verbatim>\<open>ValueError\<close> of any other string.
\<close>

definition py_float :: "string \<Rightarrow> rat option" where
  "py_float s =
     (let ip = takeWhile is_digit s; after = dropWhile is_digit s
      in case after of
           [] \<Rightarrow> if ip = [] then None else Some (decimal_value ip [])
         | d # fp \<Rightarrow>
             if d = CHR ''.'' \<and> list_all is_digit fp \<and> (ip \<noteq> [] \<or> fp \<noteq> [])
             then Some (decimal_value ip fp) else None)"

text \<open>
  \<^verbatim>\<open>float(re.sub(r'[^0-9.]', '', flare_class[1:]) or '0')\<close>, the magnitude that
  \<^verbatim>\<open>flare_strength\<close> reads.
\<close>

definition strength_magnitude :: "string \<Rightarrow> rat option" where
  "strength_magnitude fc =
     (let kept = filter (\<lambda>c. is_digit c \<or> c = CHR ''.'') (drop 1 fc)
      in py_float (if kept = [] then ''0'' else kept))"

text \<open>Lines 637-645; \<open>None\<close> is the \<^verbatim>\<open>ValueError\<close> that \<^verbatim>\<open>float\<close> raises.\<close>

definition flare_strength :: "string \<Rightarrow> rat option" where
  "flare_strength fc =
     (if startswith fc (CHR ''X'') then map_option (\<lambda>m. 1000 + m) (strength_magnitude fc)
      else if startswith fc (CHR ''M'') then map_option (\<lambda>m. 100 + m) (strength_magnitude fc)
      else if startswith fc (CHR ''C'') then map_option (\<lambda>m. 10 + m) (strength_magnitude fc)
      else Some 0)"

text \<open>
  \<^verbatim>\<open>max(items, key=...)\<close> on a list with its keys: the first item whose key no other item
  exceeds. \<open>best\<close> is the maximum so far.
\<close>

fun max_by_key :: "'a \<times> rat \<Rightarrow> ('a \<times> rat) list \<Rightarrow> 'a \<times> rat" where
  "max_by_key best [] = best"
| "max_by_key best (x # xs) = (if snd best < snd x then max_by_key x xs else max_by_key best xs)"

datatype error = ValueError

record summary =
  total_count :: nat
  x_class_count :: nat
  m_class_count :: nat
  c_class_count :: nat
  strongest_flare :: "flare_dict option"
  flares_list :: "flare_dict list"

text \<open>
  Line 647: the keys of all flares are computed; one \<^verbatim>\<open>ValueError\<close> ends the call.
\<close>

definition strongest :: "flare_dict list \<Rightarrow> error + flare_dict option" where
  "strongest flares =
     (case those (map (\<lambda>f. flare_strength (d_flare_class f)) flares) of
        None \<Rightarrow> Inl ValueError
      | Some keys \<Rightarrow>
          (case zip flares keys of
             [] \<Rightarrow> Inr None
           | p # ps \<Rightarrow> Inr (Some (fst (max_by_key p ps)))))"

definition count_class :: "char \<Rightarrow> flare_dict list \<Rightarrow> nat" where
  "count_class c flares = length (filter (\<lambda>f. startswith (d_flare_class f) c) flares)"

definition get_flares_summary :: "int \<Rightarrow> flare_db \<Rightarrow> error + summary" where
  "get_flares_summary now db =
     (let flares = get_flares_last_24h now db
      in if flares = []
         then Inr \<lparr> total_count = 0, x_class_count = 0, m_class_count = 0, c_class_count = 0,
                    strongest_flare = None, flares_list = [] \<rparr>
         else (case strongest flares of
                 Inl e \<Rightarrow> Inl e
               | Inr s \<Rightarrow>
                   Inr \<lparr> total_count = length flares,
                         x_class_count = count_class (CHR ''X'') flares,
                         m_class_count = count_class (CHR ''M'') flares,
                         c_class_count = count_class (CHR ''C'') flares,
                         strongest_flare = s, flares_list = flares \<rparr>))"

section \<open>CME store: data model\<close>

text \<open>
  The four tables of \<^verbatim>\<open>cme_tracker_enhanced.py\<close> with the columns that the code writes
  (\<^verbatim>\<open>catalog\<close>, \<^verbatim>\<open>analysis_url\<close>, \<^verbatim>\<open>submitted_by\<close>, \<^verbatim>\<open>submission_time\<close> and the
  \<^verbatim>\<open>instruments\<close> of an analysis only ever hold their defaults and are left out). A
  \<^verbatim>\<open>NULL\<close> is \<open>None\<close>; \<^verbatim>\<open>REAL\<close> columns hold exact fractions.
\<close>

record cme_row =
  cme_id :: nat
  cme_activity_id :: string
  start_time :: string
  start_timestamp :: int
  source_location :: "string option"
  source_region :: "string option"
  associated_flare :: "string option"
  cme_note :: "string option"
  cme_instruments :: string
  donki_url :: "string option"
  cme_created_at :: int
  cme_updated_at :: int

record analysis_row =
  a_id :: nat
  a_cme_id :: nat
  a_activity_id :: string
  analysis_id :: int
  analysis_type :: "string option"
  measurement_time :: "string option"
  measurement_timestamp :: "int option"
  technique :: "string option"
  data_level :: "int option"
  speed :: "rat option"
  cme_type :: "string option"
  direction_lon :: "rat option"
  direction_lat :: "rat option"
  half_angle :: "rat option"
  time_at_21_5_rs :: "string option"
  image_type :: "string option"
  a_created_at :: int
  a_updated_at :: int

record model_run_row =
  m_id :: nat
  m_analysis_id :: nat
  m_activity_id :: string
  run_number :: nat
  model_completion_time :: "string option"
  model_completion_timestamp :: "int option"
  earth_arrival_time :: "string option"
  earth_arrival_timestamp :: "int option"
  impact_duration :: "rat option"
  rmin_earth_radii :: "rat option"
  kp_90 :: "int option"
  kp_135 :: "int option"
  kp_180 :: "int option"
  m_created_at :: int

record impact_row =
  i_id :: nat
  i_model_run_id :: nat
  i_analysis_id :: nat
  i_activity_id :: string
  spacecraft_name :: string
  arrival_time :: "string option"
  arrival_timestamp :: "int option"
  i_created_at :: int

text \<open>
  The database: the four tables and, for each, the counter of its \<^verbatim>\<open>AUTOINCREMENT\<close> key.
\<close>

record cme_db =
  cmes_enhanced :: "cme_row list"
  cme_analyses :: "analysis_row list"
  cme_model_runs :: "model_run_row list"
  cme_spacecraft_impacts :: "impact_row list"
  seq_cmes :: nat
  seq_analyses :: nat
  seq_model_runs :: nat
  seq_impacts :: nat

text \<open>
  The id that \<^verbatim>\<open>AUTOINCREMENT\<close> gives a new row: above the counter and above every id
  of the table.
\<close>

definition fresh_id :: "nat \<Rightarrow> nat list \<Rightarrow> nat" where
  "fresh_id counter ids = Suc (fold max ids counter)"

section \<open>CME store: \<^verbatim>\<open>store_cme\<close>\<close>

text \<open>
  A value of a JSON object of the DONKI catalog under a key: the key may be missing, the
  value may be \<^verbatim>\<open>null\<close>. \<open>get\<close> is \<^verbatim>\<open>d.get(k)\<close> and \<open>get_or\<close> is \<^verbatim>\<open>d.get(k, default)\<close>;
  Python's \<^verbatim>\<open>None\<close> is \<open>None\<close>.
\<close>

datatype 'a jvalue = Missing | JNull | Value 'a

definition get :: "'a jvalue \<Rightarrow> 'a option" where
  "get v = (case v of Missing \<Rightarrow> None | JNull \<Rightarrow> None | Value x \<Rightarrow> Some x)"

definition get_or :: "'a \<Rightarrow> 'a jvalue \<Rightarrow> 'a option" where
  "get_or dflt v = (case v of Missing \<Rightarrow> Some dflt | JNull \<Rightarrow> None | Value x \<Rightarrow> Some x)"

record impact_payload =
  p_location :: "string jvalue"
  arrivalTime :: "string jvalue"

record enlil_payload =
  modelCompletionTime :: "string jvalue"
  estimatedShockArrivalTime :: "string jvalue"
  estimatedDuration :: "rat jvalue"
  rmin_re :: "rat jvalue"
  p_kp_90 :: "int jvalue"
  p_kp_135 :: "int jvalue"
  p_kp_180 :: "int jvalue"
  impactList :: "impact_payload list jvalue"

record analysis_payload =
  featureCode :: "string jvalue"
  time21_5 :: "string jvalue"
  measurementTechnique :: "string jvalue"
  levelOfData :: "int jvalue"
  p_speed :: "rat jvalue"
  p_type :: "string jvalue"
  longitude :: "rat jvalue"
  latitude :: "rat jvalue"
  halfAngle :: "rat jvalue"
  imageType :: "string jvalue"
  enlilList :: "enlil_payload list jvalue"

text \<open>
  The CME object. \<open>instruments\<close> holds the \<^verbatim>\<open>displayName\<close> of each instrument and
  \<open>linkedEvents\<close> the \<^verbatim>\<open>activityID\<close> of each linked event.
\<close>

record cme_payload =
  activityID :: string
  startTime :: string
  sourceLocation :: "string jvalue"
  activeRegionNum :: "int jvalue"
  instruments :: "string list jvalue"
  p_note :: "string jvalue"
  link :: "string jvalue"
  linkedEvents :: "string list jvalue"
  cmeAnalyses :: "analysis_payload list jvalue"

text \<open>\<^verbatim>\<open>str(n)\<close>, \<^verbatim>\<open>sep.join(xs)\<close>, \<^verbatim>\<open>sub in s\<close> and the text of a value in an f-string.\<close>

fun str_nat :: "nat \<Rightarrow> string" where
  "str_nat n =
     (if n < 10 then [char_of (48 + n)]
      else str_nat (n div 10) @ [char_of (48 + n mod 10)])"

definition str_int :: "int \<Rightarrow> string" where
  "str_int n = (if n < 0 then CHR ''-'' # str_nat (nat (- n)) else str_nat (nat n))"

fun join :: "string \<Rightarrow> string list \<Rightarrow> string" where
  "join sep [] = []"
| "join sep [x] = x"
| "join sep (x # y # ys) = x @ sep @ join sep (y # ys)"

fun contains :: "string \<Rightarrow> string \<Rightarrow> bool" where
  "contains sub [] = (sub = [])"
| "contains sub (c # cs) = (take (length sub) (c # cs) = sub \<or> contains sub cs)"

definition fmt :: "string option \<Rightarrow> string" where
  "fmt v = (case v of None \<Rightarrow> ''None'' | Some s \<Rightarrow> s)"

text \<open>
  The pattern \<^verbatim>\<open>ts = None; if text: ts = int(datetime.fromisoformat(...).timestamp())\<close>.
  \<open>fromisoformat\<close> stands for the conversion of the text (\<^verbatim>\<open>Z\<close> replaced by
  \<^verbatim>\<open>+00:00\<close>) to epoch seconds and is \<open>None\<close> where Python raises \<^verbatim>\<open>ValueError\<close>; the
  outer \<open>None\<close> of the result is that exception.
\<close>

definition timestamp_of :: "(string \<Rightarrow> int option) \<Rightarrow> string option \<Rightarrow> int option option" where
  "timestamp_of fromisoformat v =
     (if truthy_str v
      then (case fromisoformat (the v) of None \<Rightarrow> None | Some t \<Rightarrow> Some (Some t))
      else Some None)"

text \<open>
  Lines 395-415. The table has no uniqueness constraint, so \<^verbatim>\<open>INSERT OR REPLACE\<close> inserts.
  An exception (a time that does not parse, a \<^verbatim>\<open>null\<close> name in a \<^verbatim>\<open>NOT NULL\<close> column)
  is caught and the impact is skipped.
\<close>

definition store_spacecraft_impact ::
  "(string \<Rightarrow> int option) \<Rightarrow> int \<Rightarrow> nat \<Rightarrow> nat \<Rightarrow> string \<Rightarrow> cme_db \<Rightarrow> impact_payload \<Rightarrow> cme_db"
where
  "store_spacecraft_impact fromisoformat now model_run_id analysis_db_id activity_id db impact =
     (case timestamp_of fromisoformat (get (arrivalTime impact)) of
        None \<Rightarrow> db
      | Some ts \<Rightarrow>
          (case get_or [] (p_location impact) of
             None \<Rightarrow> db
           | Some name \<Rightarrow>
               let i = fresh_id (seq_impacts db) (map i_id (cme_spacecraft_impacts db))
               in db\<lparr> cme_spacecraft_impacts := cme_spacecraft_impacts db @
                         [\<lparr> i_id = i, i_model_run_id = model_run_id,
                            i_analysis_id = analysis_db_id, i_activity_id = activity_id,
                            spacecraft_name = name, arrival_time = get (arrivalTime impact),
                            arrival_timestamp = ts, i_created_at = now \<rparr>],
                       seq_impacts := i \<rparr>))"

text \<open>
  Lines 351-393. \<^verbatim>\<open>UNIQUE(analysis_id, run_number)\<close>: \<^verbatim>\<open>INSERT OR REPLACE\<close> deletes the
  row with the same analysis row id and run number, then inserts; \<open>analysis_db_id\<close> is the
  \<^verbatim>\<open>lastrowid\<close> of the analysis row.
\<close>

definition store_model_run ::
  "(string \<Rightarrow> int option) \<Rightarrow> int \<Rightarrow> nat \<Rightarrow> string \<Rightarrow> cme_db \<Rightarrow> nat \<times> enlil_payload \<Rightarrow> cme_db"
where
  "store_model_run fromisoformat now analysis_db_id activity_id db numbered =
     (case numbered of (run_num, enlil) \<Rightarrow>
        (case timestamp_of fromisoformat (get_or [] (modelCompletionTime enlil)) of
           None \<Rightarrow> db
         | Some completion_ts \<Rightarrow>
             (case timestamp_of fromisoformat (get (estimatedShockArrivalTime enlil)) of
                None \<Rightarrow> db
              | Some arrival_ts \<Rightarrow>
                  let model_run_id = fresh_id (seq_model_runs db) (map m_id (cme_model_runs db));
                      kept = filter (\<lambda>m. \<not> (m_analysis_id m = analysis_db_id \<and> run_number m = run_num))
                               (cme_model_runs db);
                      db1 = db\<lparr> cme_model_runs := kept @
                               [\<lparr> m_id = model_run_id, m_analysis_id = analysis_db_id,
                                  m_activity_id = activity_id, run_number = run_num,
                                  model_completion_time = get_or [] (modelCompletionTime enlil),
                                  model_completion_timestamp = completion_ts,
                                  earth_arrival_time = get (estimatedShockArrivalTime enlil),
                                  earth_arrival_timestamp = arrival_ts,
                                  impact_duration = get (estimatedDuration enlil),
                                  rmin_earth_radii = get (rmin_re enlil),
                                  kp_90 = get (p_kp_90 enlil), kp_135 = get (p_kp_135 enlil),
                                  kp_180 = get (p_kp_180 enlil), m_created_at = now \<rparr>],
                             seq_model_runs := model_run_id \<rparr>
                  in (case impactList enlil of
                        Value impacts \<Rightarrow>
                          foldl (store_spacecraft_impact fromisoformat now model_run_id
                                   analysis_db_id activity_id) db1 impacts
                      | _ \<Rightarrow> db1))))"

text \<open>
  Lines 303-349. \<open>py_hash\<close> stands for Python's \<^verbatim>\<open>hash\<close> on strings.
  \<^verbatim>\<open>UNIQUE(activity_id, analysis_id, analysis_type)\<close>: the row with the same three values
  is deleted (a \<^verbatim>\<open>NULL\<close> type conflicts with nothing), then the new row is inserted under a
  new id; runs are numbered from 1.
\<close>

definition store_analysis ::
  "(string \<Rightarrow> int option) \<Rightarrow> (string \<Rightarrow> int) \<Rightarrow> int \<Rightarrow> nat \<Rightarrow> string \<Rightarrow> cme_db \<Rightarrow> analysis_payload \<Rightarrow> cme_db"
where
  "store_analysis fromisoformat py_hash now cid activity_id db analysis =
     (let atype = get_or ''LE'' (featureCode analysis);
          mtime = get_or [] (time21_5 analysis)
      in case timestamp_of fromisoformat mtime of
           None \<Rightarrow> db
         | Some measurement_ts \<Rightarrow>
             let aid = \<bar>py_hash (activity_id @ ''_'' @ fmt atype @ ''_'' @ fmt mtime)\<bar> mod 1000000;
                 analysis_db_id = fresh_id (seq_analyses db) (map a_id (cme_analyses db));
                 kept = filter (\<lambda>a. \<not> (a_activity_id a = activity_id \<and> analysis_id a = aid
                                        \<and> atype \<noteq> None \<and> analysis_type a = atype))
                          (cme_analyses db);
                 db1 = db\<lparr> cme_analyses := kept @
                          [\<lparr> a_id = analysis_db_id, a_cme_id = cid, a_activity_id = activity_id,
                             analysis_id = aid, analysis_type = atype, measurement_time = mtime,
                             measurement_timestamp = measurement_ts,
                             technique = get_or [] (measurementTechnique analysis),
                             data_level = get_or 0 (levelOfData analysis),
                             speed = get (p_speed analysis),
                             cme_type = get_or [] (p_type analysis),
                             direction_lon = get (longitude analysis),
                             direction_lat = get (latitude analysis),
                             half_angle = get (halfAngle analysis),
                             time_at_21_5_rs = get_or [] (time21_5 analysis),
                             image_type = get_or [] (imageType analysis),
                             a_created_at = now, a_updated_at = now \<rparr>],
                        seq_analyses := analysis_db_id \<rparr>
             in (case enlilList analysis of
                   Value runs \<Rightarrow>
                     foldl (store_model_run fromisoformat now analysis_db_id activity_id) db1
                       (zip [1 ..< Suc (length runs)] runs)
                 | _ \<Rightarrow> db1))"

text \<open>
  Lines 242-301: the id of the stored CME row and the database, or \<open>None\<close> and the database
  as it was when an exception ends the call before the commit (a start time that does not
  parse, a \<^verbatim>\<open>null\<close> list of instruments or of analyses). \<^verbatim>\<open>UNIQUE(activity_id)\<close>: the
  row of the same activity id is deleted, then the new row is inserted under a new id.
\<close>

definition store_cme ::
  "(string \<Rightarrow> int option) \<Rightarrow> (string \<Rightarrow> int) \<Rightarrow> int \<Rightarrow> cme_payload \<Rightarrow> cme_db \<Rightarrow> nat option \<times> cme_db"
where
  "store_cme fromisoformat py_hash now cme_data db =
     (case fromisoformat (startTime cme_data) of
        None \<Rightarrow> (None, db)
      | Some start_ts \<Rightarrow>
          (case get_or [] (instruments cme_data) of
             None \<Rightarrow> (None, db)
           | Some names \<Rightarrow>
               let activity_id = activityID cme_data;
                   flare_events = (case linkedEvents cme_data of
                                     Value events \<Rightarrow> filter (contains ''FLR'') events
                                   | _ \<Rightarrow> []);
                   cid = fresh_id (seq_cmes db) (map cme_id (cmes_enhanced db));
                   kept = filter (\<lambda>c. cme_activity_id c \<noteq> activity_id) (cmes_enhanced db);
                   db1 = db\<lparr> cmes_enhanced := kept @
                            [\<lparr> cme_id = cid, cme_activity_id = activity_id,
                               start_time = startTime cme_data, start_timestamp = start_ts,
                               source_location = get_or [] (sourceLocation cme_data),
                               source_region =
                                 (case get (activeRegionNum cme_data) of
                                    None \<Rightarrow> None
                                  | Some n \<Rightarrow> if n = 0 then None else Some (str_int n)),
                               associated_flare =
                                 (case flare_events of [] \<Rightarrow> None | e # _ \<Rightarrow> Some e),
                               cme_note = get_or [] (p_note cme_data),
                               cme_instruments = join '', '' names,
                               donki_url = get_or [] (link cme_data),
                               cme_created_at = now, cme_updated_at = now \<rparr>],
                          seq_cmes := cid \<rparr>
               in (case cmeAnalyses cme_data of
                     Missing \<Rightarrow> (Some cid, db1)
                   | JNull \<Rightarrow> (None, db)
                   | Value analyses \<Rightarrow>
                       (Some cid,
                        foldl (store_analysis fromisoformat py_hash now cid activity_id) db1
                          analyses))))"

text \<open>The row counts of the four tables.\<close>

definition row_counts :: "cme_db \<Rightarrow> nat \<times> nat \<times> nat \<times> nat" where
  "row_counts db =
     (length (cmes_enhanced db), length (cme_analyses db),
      length (cme_model_runs db), length (cme_spacecraft_impacts db))"

section \<open>CME queries: \<^verbatim>\<open>get_cmes_with_arrivals_in_window\<close>\<close>

text \<open>
  Lines 535-565. The result of \<^verbatim>\<open>_get_analyses_for_cme\<close>: every analysis row of the CME
  with its list \<^verbatim>\<open>model_runs\<close>, every run with its list \<^verbatim>\<open>spacecraft_impacts\<close>.
\<close>

type_synonym run_tree = "model_run_row \<times> impact_row list"

type_synonym analysis_tree = "analysis_row \<times> run_tree list"

definition spacecraft_impacts_of :: "cme_db \<Rightarrow> nat \<Rightarrow> impact_row list" where
  "spacecraft_impacts_of db model_run_id =
     sort_key spacecraft_name
       (filter (\<lambda>i. i_model_run_id i = model_run_id) (cme_spacecraft_impacts db))"

definition model_runs_of :: "cme_db \<Rightarrow> nat \<Rightarrow> run_tree list" where
  "model_runs_of db analysis_db_id =
     map (\<lambda>m. (m, spacecraft_impacts_of db (m_id m)))
       (sort_key run_number
          (filter (\<lambda>m. m_analysis_id m = analysis_db_id) (cme_model_runs db)))"

definition get_analyses_for_cme :: "cme_db \<Rightarrow> nat \<Rightarrow> analysis_tree list" where
  "get_analyses_for_cme db cid =
     map (\<lambda>a. (a, model_runs_of db (a_id a)))
       (sort_key (\<lambda>a. (analysis_type a, analysis_id a))
          (filter (\<lambda>a. a_cme_id a = cid) (cme_analyses db)))"

text \<open>
  The \<^verbatim>\<open>WHERE\<close> clause of lines 516:
  \<^verbatim>\<open>m.earth_arrival_timestamp >= ? AND m.earth_arrival_timestamp <= ?\<close>; a \<^verbatim>\<open>NULL\<close>
  timestamp satisfies neither comparison.
\<close>

definition arrival_between :: "int \<Rightarrow> int \<Rightarrow> model_run_row \<Rightarrow> bool" where
  "arrival_between start_ts end_ts m =
     (case earth_arrival_timestamp m of
        None \<Rightarrow> False
      | Some t \<Rightarrow> start_ts \<le> t \<and> t \<le> end_ts)"

text \<open>
  Lines 498-529. The window bounds are whole epoch seconds, \<open>uncertainty_hours\<close> is an
  integer (7 by default). The rows of the join, made distinct, latest start first, each
  with the tree of its analyses.
\<close>

definition get_cmes_with_arrivals_in_window ::
  "cme_db \<Rightarrow> int \<Rightarrow> int \<Rightarrow> int \<Rightarrow> (cme_row \<times> analysis_tree list) list" where
  "get_cmes_with_arrivals_in_window db window_start window_end uncertainty_hours =
     (let start_ts = window_start - 3600 * uncertainty_hours;
          end_ts = window_end + 3600 * uncertainty_hours;
          joined = concat (map (\<lambda>c.
                     concat (map (\<lambda>a.
                       concat (map (\<lambda>m.
                         if cme_id c = a_cme_id a \<and> a_id a = m_analysis_id m
                            \<and> arrival_between start_ts end_ts m
                         then [c] else [])
                       (cme_model_runs db)))
                     (cme_analyses db)))
                   (cmes_enhanced db));
          cmes = sort_key (\<lambda>c. - start_timestamp c) (remdups joined)
      in map (\<lambda>c. (c, get_analyses_for_cme db (cme_id c))) cmes)"

section \<open>Example data\<close>

text \<open>
  \<^verbatim>\<open>strptime\<close> with the format \<^verbatim>\<open>%Y-%m-%d %H:%M:%S\<close>, read as UTC epoch seconds, on
  the zero-padded strings that both parsers write; any other string is \<open>None\<close> here. The
  examples pass it for the parameter \<open>strptime\<close>; every theorem holds for any function
  in its place.
\<close>

definition days_from_civil :: "int \<Rightarrow> int \<Rightarrow> int \<Rightarrow> int" where
  "days_from_civil y m d =
     (let y' = (if m \<le> 2 then y - 1 else y);
          era = y' div 400;
          yoe = y' - era * 400;
          doy = (153 * (if 2 < m then m - 3 else m + 9) + 2) div 5 + d - 1;
          doe = yoe * 365 + yoe div 4 - yoe div 100 + doy
      in era * 146097 + doe - 719468)"

definition days_in_month :: "int \<Rightarrow> int \<Rightarrow> int" where
  "days_in_month y m =
     (if m = 2 then (if y mod 4 = 0 \<and> (y mod 100 \<noteq> 0 \<or> y mod 400 = 0) then 29 else 28)
      else if m \<in> {4, 6, 9, 11} then 30 else 31)"

definition strptime_utc :: "string \<Rightarrow> int option" where
  "strptime_utc s =
     (case s of
        [y1, y2, y3, y4, s1, m1, m2, s2, d1, d2, s3, h1, h2, s4, n1, n2, s5, c1, c2] \<Rightarrow>
          if list_all is_digit [y1, y2, y3, y4, m1, m2, d1, d2, h1, h2, n1, n2, c1, c2]
             \<and> [s1, s2, s3, s4, s5] = ''-- ::''
          then
            let y = int (digits_value [y1, y2, y3, y4]); m = int (digits_value [m1, m2]);
                d = int (digits_value [d1, d2]); h = int (digits_value [h1, h2]);
                n = int (digits_value [n1, n2]); c = int (digits_value [c1, c2])
            in if 1 \<le> y \<and> 1 \<le> m \<and> m \<le> 12 \<and> 1 \<le> d \<and> d \<le> days_in_month y m
                  \<and> h < 24 \<and> n < 60 \<and> c < 62
               then Some (days_from_civil y m d * 86400 + h * 3600 + n * 60 + c)
               else None
          else None
      | _ \<Rightarrow> None)"

text \<open>
  The flare of the spec's scenario as the NOAA parser reports it (one time, taken as the
  start), and as the LMSAL parser reports it (start 00:20, peak 00:26:30, end 00:35).
  \<open>1762043160\<close> is 2025-11-02T00:26:00Z and \<open>1762042800\<close> is 2025-11-02T00:20:00Z.
\<close>

definition noaa_m10 :: flare where
  "noaa_m10 =
     \<lparr> event_date = ''2025-11-02'', event_time = Some ''00:26'',
       event_timestamp = Some 1762043160, flare_class = ''M1.0'',
       region = None, location = None, peak_time = None, end_time = None,
       raw_text = ''M1.0 flare at 0026 UTC on 02 Nov'' \<rparr>"

definition lmsal_m11 :: flare where
  "lmsal_m11 =
     \<lparr> event_date = ''2025-11-02'', event_time = Some ''00:20'',
       event_timestamp = Some 1762042800, flare_class = ''M1.1'',
       region = Some ''4274'', location = Some ''N24E47'',
       peak_time = Some ''00:26:30'', end_time = Some ''00:35:00'',
       raw_text = ''LMSAL: M1.1 at 2025/11/02 00:20:00'' \<rparr>"

text \<open>
  Three stored rows: one without a timestamp, one of 2025-10-31T00:00:00Z
  (\<open>1761868800\<close>), one of 2025-11-02T00:26:00Z. \<open>1762063200\<close> is 2025-11-02T06:00:00Z.
\<close>

definition row_unknown :: flare_row where
  "row_unknown =
     \<lparr> event_date = ''2025-10-30'', event_time = None, event_timestamp = None,
       flare_class = ''X1.2'', region = Some ''4267'', location = None,
       peak_time = None, end_time = None, raw_text = ''X1.2 flare from Region 4267'',
       row_id = 1, scraped_at = 1761800000, source = ''NOAA'' \<rparr>"

definition row_old :: flare_row where
  "row_old =
     \<lparr> event_date = ''2025-10-31'', event_time = Some ''00:00'',
       event_timestamp = Some 1761868800, flare_class = ''C8.2'', region = None,
       location = Some ''N00W60'', peak_time = Some ''00:05:00'', end_time = Some ''00:10:00'',
       raw_text = ''LMSAL: C8.2 at 2025/10/31 00:00:00'',
       row_id = 2, scraped_at = 1761870000, source = ''LMSAL'' \<rparr>"

definition row_recent :: flare_row where
  "row_recent = new_row noaa_m10 ''NOAA'' 1762050000 3"

definition db_three :: flare_db where
  "db_three = \<lparr> rows = [row_unknown, row_old, row_recent], seq = 3 \<rparr>"

text \<open>
  The same flare stored from the LMSAL report, and a later flare of the same day and class
  (06:00, \<open>1762063200\<close>) from NOAA.
\<close>

definition row_lmsal :: flare_row where
  "row_lmsal = new_row lmsal_m11 ''LMSAL'' 1762050000 4"

definition row_later :: flare_row where
  "row_later =
     new_row (noaa_m10\<lparr>event_time := Some ''06:00'', event_timestamp := Some 1762063200\<rparr>)
       ''NOAA'' 1762064000 1"

definition db_later :: flare_db where
  "db_later = \<lparr> rows = [row_later], seq = 1 \<rparr>"




text \<open>
  The LMSAL row of the flare and the LMSAL report of it, both without a start time.
\<close>

definition row_lmsal_unknown :: flare_row where
  "row_lmsal_unknown = row_lmsal\<lparr>event_time := None, event_timestamp := None\<rparr>"

definition lmsal_unknown :: flare where
  "lmsal_unknown = lmsal_m11\<lparr>event_time := None, event_timestamp := None\<rparr>"








text \<open>
  The LMSAL row of the flare without an end time, and a later LMSAL report with the end
  time and another region number.
\<close>

definition row_lmsal_noend :: flare_row where
  "row_lmsal_noend = row_lmsal\<lparr>end_time := None\<rparr>"

definition db_noend :: flare_db where
  "db_noend = \<lparr> rows = [row_lmsal_noend], seq = 4 \<rparr>"

definition lmsal_4275 :: flare where
  "lmsal_4275 = lmsal_m11\<lparr>region := Some ''4275''\<rparr>"






text \<open>
  \<^verbatim>\<open>fromisoformat\<close> on the catalog's form \<^verbatim>\<open>YYYY-MM-DDTHH:MMZ\<close>, and a stand-in for
  Python's string hash, for the examples.
\<close>

definition fromisoformat_utc :: "string \<Rightarrow> int option" where
  "fromisoformat_utc s =
     (if length s = 17 \<and> s ! 10 = CHR ''T'' \<and> s ! 16 = CHR ''Z''
      then strptime_utc (take 10 s @ '' '' @ take 5 (drop 11 s) @ '':00'')
      else None)"

definition example_hash :: "string \<Rightarrow> int" where
  "example_hash s = int (sum_list (map of_char s))"

text \<open>
  The CME of the spec's scenario: one LE analysis with one model run that predicts the
  arrival 50 hours after the start (2025-11-04T02:26Z, \<open>1762223160\<close>) and one spacecraft
  impact. A second CME starts 44 hours after the first and has an analysis without runs.
\<close>

definition impact_stereo :: impact_payload where
  "impact_stereo = \<lparr> p_location = Value ''STEREO A'', arrivalTime = Value ''2025-11-04T07:26Z'' \<rparr>"

definition enlil_1 :: enlil_payload where
  "enlil_1 =
     \<lparr> modelCompletionTime = Value ''2025-11-02T09:26Z'',
       estimatedShockArrivalTime = Value ''2025-11-04T02:26Z'',
       estimatedDuration = Value 12, rmin_re = Value 6,
       p_kp_90 = Value 5, p_kp_135 = Value 6, p_kp_180 = Value 7,
       impactList = Value [impact_stereo] \<rparr>"

definition analysis_le :: analysis_payload where
  "analysis_le =
     \<lparr> featureCode = Value ''LE'', time21_5 = Value ''2025-11-02T06:26Z'',
       measurementTechnique = Value ''SWPC_CAT'', levelOfData = Value 0,
       p_speed = Value 850, p_type = Value ''C'', longitude = Value (-20),
       latitude = Value 10, halfAngle = Value 35, imageType = Value ''running difference'',
       enlilList = Value [enlil_1] \<rparr>"

definition cme_001 :: cme_payload where
  "cme_001 =
     \<lparr> activityID = ''2025-11-02T00:26:00-CME-001'', startTime = ''2025-11-02T00:26Z'',
       sourceLocation = Value ''N24E47'', activeRegionNum = Value 4274,
       instruments = Value [''SOHO: LASCO/C2'', ''SOHO: LASCO/C3''],
       p_note = Value '''', link = Value ''https://kauai.ccmc.gsfc.nasa.gov/DONKI/view/CME/1'',
       linkedEvents = Value [''2025-11-02T00:20:00-FLR-001''],
       cmeAnalyses = Value [analysis_le] \<rparr>"

definition cme_002 :: cme_payload where
  "cme_002 =
     \<lparr> activityID = ''2025-11-03T20:26:00-CME-001'', startTime = ''2025-11-03T20:26Z'',
       sourceLocation = Value '''', activeRegionNum = JNull,
       instruments = Value [''SOHO: LASCO/C2''],
       p_note = Value '''', link = Value ''https://kauai.ccmc.gsfc.nasa.gov/DONKI/view/CME/2'',
       linkedEvents = JNull,
       cmeAnalyses = Value [analysis_le\<lparr>time21_5 := Value ''2025-11-04T01:26Z'', enlilList := JNull\<rparr>] \<rparr>"

definition empty_cme_db :: cme_db where
  "empty_cme_db =
     \<lparr> cmes_enhanced = [], cme_analyses = [], cme_model_runs = [], cme_spacecraft_impacts = [],
       seq_cmes = 0, seq_analyses = 0, seq_model_runs = 0, seq_impacts = 0 \<rparr>"

text \<open>
  The rows that the first call of \<^verbatim>\<open>store_cme\<close> writes for the first CME (clock
  \<open>1762300000\<close>), and the rows of the second CME.
\<close>

definition cme_row_1 :: cme_row where
  "cme_row_1 =
     \<lparr> cme_id = 1, cme_activity_id = ''2025-11-02T00:26:00-CME-001'',
       start_time = ''2025-11-02T00:26Z'', start_timestamp = 1762043160,
       source_location = Some ''N24E47'', source_region = Some ''4274'',
       associated_flare = Some ''2025-11-02T00:20:00-FLR-001'', cme_note = Some [],
       cme_instruments = ''SOHO: LASCO/C2, SOHO: LASCO/C3'',
       donki_url = Some ''https://kauai.ccmc.gsfc.nasa.gov/DONKI/view/CME/1'',
       cme_created_at = 1762300000, cme_updated_at = 1762300000 \<rparr>"

definition analysis_row_1 :: analysis_row where
  "analysis_row_1 =
     \<lparr> a_id = 1, a_cme_id = 1, a_activity_id = ''2025-11-02T00:26:00-CME-001'',
       analysis_id = 2691, analysis_type = Some ''LE'',
       measurement_time = Some ''2025-11-02T06:26Z'', measurement_timestamp = Some 1762064760,
       technique = Some ''SWPC_CAT'', data_level = Some 0, speed = Some 850,
       cme_type = Some ''C'', direction_lon = Some (- 20), direction_lat = Some 10,
       half_angle = Some 35, time_at_21_5_rs = Some ''2025-11-02T06:26Z'',
       image_type = Some ''running difference'',
       a_created_at = 1762300000, a_updated_at = 1762300000 \<rparr>"

definition run_row_1 :: model_run_row where
  "run_row_1 =
     \<lparr> m_id = 1, m_analysis_id = 1, m_activity_id = ''2025-11-02T00:26:00-CME-001'',
       run_number = 1, model_completion_time = Some ''2025-11-02T09:26Z'',
       model_completion_timestamp = Some 1762075560,
       earth_arrival_time = Some ''2025-11-04T02:26Z'',
       earth_arrival_timestamp = Some 1762223160,
       impact_duration = Some 12, rmin_earth_radii = Some 6,
       kp_90 = Some 5, kp_135 = Some 6, kp_180 = Some 7, m_created_at = 1762300000 \<rparr>"

definition impact_row_1 :: impact_row where
  "impact_row_1 =
     \<lparr> i_id = 1, i_model_run_id = 1, i_analysis_id = 1,
       i_activity_id = ''2025-11-02T00:26:00-CME-001'', spacecraft_name = ''STEREO A'',
       arrival_time = Some ''2025-11-04T07:26Z'', arrival_timestamp = Some 1762241160,
       i_created_at = 1762300000 \<rparr>"

definition cme_row_2 :: cme_row where
  "cme_row_2 =
     \<lparr> cme_id = 2, cme_activity_id = ''2025-11-03T20:26:00-CME-001'',
       start_time = ''2025-11-03T20:26Z'', start_timestamp = 1762201560,
       source_location = Some [], source_region = None, associated_flare = None,
       cme_note = Some [], cme_instruments = ''SOHO: LASCO/C2'',
       donki_url = Some ''https://kauai.ccmc.gsfc.nasa.gov/DONKI/view/CME/2'',
       cme_created_at = 1762300000, cme_updated_at = 1762300000 \<rparr>"

definition analysis_row_2 :: analysis_row where
  "analysis_row_2 =
     analysis_row_1\<lparr> a_id := 2, a_cme_id := 2,
       a_activity_id := ''2025-11-03T20:26:00-CME-001'',
       measurement_time := Some ''2025-11-04T01:26Z'',
       measurement_timestamp := Some 1762219560,
       time_at_21_5_rs := Some ''2025-11-04T01:26Z'' \<rparr>"

text \<open>
  The database after the first CME is stored once, after it is stored twice, and after
  the first and the second CME are stored.
\<close>

definition db_once :: cme_db where
  "db_once =
     \<lparr> cmes_enhanced = [cme_row_1], cme_analyses = [analysis_row_1],
       cme_model_runs = [run_row_1], cme_spacecraft_impacts = [impact_row_1],
       seq_cmes = 1, seq_analyses = 1, seq_model_runs = 1, seq_impacts = 1 \<rparr>"

definition db_twice :: cme_db where
  "db_twice =
     \<lparr> cmes_enhanced = [cme_row_1\<lparr>cme_id := 2\<rparr>],
       cme_analyses = [analysis_row_1\<lparr>a_id := 2, a_cme_id := 2\<rparr>],
       cme_model_runs = [run_row_1, run_row_1\<lparr>m_id := 2, m_analysis_id := 2\<rparr>],
       cme_spacecraft_impacts =
         [impact_row_1,
          impact_row_1\<lparr>i_id := 2, i_model_run_id := 2, i_analysis_id := 2\<rparr>],
       seq_cmes = 2, seq_analyses = 2, seq_model_runs = 2, seq_impacts = 2 \<rparr>"

definition db_both :: cme_db where
  "db_both =
     \<lparr> cmes_enhanced = [cme_row_1, cme_row_2],
       cme_analyses = [analysis_row_1, analysis_row_2],
       cme_model_runs = [run_row_1], cme_spacecraft_impacts = [impact_row_1],
       seq_cmes = 2, seq_analyses = 2, seq_model_runs = 1, seq_impacts = 1 \<rparr>"

text \<open>
  An LMSAL row of the same location that starts ten minutes later (00:30,
  \<open>1762043400\<close>) and peaks at 00:40.
\<close>

definition row_lmsal_late :: flare_row where
  "row_lmsal_late =
     new_row (lmsal_m11\<lparr>event_time := Some ''00:30'', event_timestamp := Some 1762043400,
                        peak_time := Some ''00:40:00'', end_time := Some ''00:50:00''\<rparr>)
       ''LMSAL'' 1762050000 5"


lemmas match_eval = timestamp_match_def noaa_time_lmsal_peak_def lmsal_peak_noaa_time_def
  lmsal_peaks_def location_window_def truthy_int_def truthy_str_def

lemma strptime_utc_peak: "strptime_utc ''2025-11-02 00:26:30'' = Some 1762043190"
  by code_simp



section \<open>Retention: the deleted rows\<close>

lemma length_filter_complement:
  "length xs - length (filter (\<lambda>x. \<not> P x) xs) = length (filter P xs)"
proof -
  have "length (filter P xs) + length (filter (\<lambda>x. \<not> P x) xs) = length xs"
    by (rule sum_length_filter_compl)
  then show ?thesis by simp
qed

text \<open>
  Claim C6. For every \<open>hours\<close>, \<^verbatim>\<open>cleanup_old_flares\<close> keeps, in their order and unchanged,
  exactly the rows whose \<^verbatim>\<open>event_timestamp\<close> is null or not older than \<open>now - hours\<close>; it
  deletes exactly the rows with a timestamp strictly older than that, never a row with a
  null timestamp, and returns the number of deleted rows; the id counter is untouched.
\<close>

theorem cleanup_old_flares_exact:
  "rows (snd (cleanup_old_flares now hours db)) =
     filter (\<lambda>r. event_timestamp r = None \<or>
                 (\<exists>t. event_timestamp r = Some t \<and> now - 3600 * hours \<le> t)) (rows db)
   \<and> (\<forall>r \<in> set (rows db). event_timestamp r = None \<longrightarrow>
         r \<in> set (rows (snd (cleanup_old_flares now hours db))))
   \<and> (\<forall>r \<in> set (rows db).
         r \<notin> set (rows (snd (cleanup_old_flares now hours db))) \<longleftrightarrow>
         (\<exists>t. event_timestamp r = Some t \<and> t < now - 3600 * hours))
   \<and> fst (cleanup_old_flares now hours db) =
       length (filter (\<lambda>r. \<exists>t. event_timestamp r = Some t \<and> t < now - 3600 * hours) (rows db))
   \<and> seq (snd (cleanup_old_flares now hours db)) = seq db"
proof -
  let ?c = "now - 3600 * hours"
  have keep: "(\<lambda>r. \<not> delete_where ?c r) =
      (\<lambda>r. event_timestamp r = None \<or> (\<exists>t. event_timestamp r = Some t \<and> ?c \<le> t))"
    by (rule ext) (auto simp: delete_where_def split: option.splits)
  have del: "delete_where ?c = (\<lambda>r. \<exists>t. event_timestamp r = Some t \<and> t < ?c)"
    by (rule ext) (auto simp: delete_where_def split: option.splits)
  have r: "rows (snd (cleanup_old_flares now hours db)) =
      filter (\<lambda>r. \<not> delete_where ?c r) (rows db)"
    by (simp add: cleanup_old_flares_def Let_def)
  have n: "fst (cleanup_old_flares now hours db) = length (filter (delete_where ?c) (rows db))"
    by (simp add: cleanup_old_flares_def Let_def length_filter_complement)
  have s: "seq (snd (cleanup_old_flares now hours db)) = seq db"
    by (simp add: cleanup_old_flares_def Let_def)
  have c1: "rows (snd (cleanup_old_flares now hours db)) =
      filter (\<lambda>r. event_timestamp r = None \<or>
                  (\<exists>t. event_timestamp r = Some t \<and> ?c \<le> t)) (rows db)"
    using r by (simp only: keep)
  have c2: "\<forall>r \<in> set (rows db). event_timestamp r = None \<longrightarrow>
      r \<in> set (rows (snd (cleanup_old_flares now hours db)))"
    by (simp add: c1)
  have c3: "\<forall>r \<in> set (rows db).
      r \<notin> set (rows (snd (cleanup_old_flares now hours db))) \<longleftrightarrow>
      (\<exists>t. event_timestamp r = Some t \<and> t < ?c)"
    by (auto simp: r delete_where_def split: option.splits)
  have c4: "fst (cleanup_old_flares now hours db) =
      length (filter (\<lambda>r. \<exists>t. event_timestamp r = Some t \<and> t < ?c) (rows db))"
    using n by (simp only: del)
  from c1 c2 c3 c4 s show ?thesis by blast
qed

theorem cleanup_old_flares_exact_witness:
  "row_unknown \<in> set (rows db_three) \<and> event_timestamp row_unknown = None
   \<and> rows (snd (cleanup_old_flares 1762063200 24 db_three)) = [row_unknown, row_recent]
   \<and> fst (cleanup_old_flares 1762063200 24 db_three) = 1"
  using cleanup_old_flares_exact [of 1762063200 24 db_three]
  by (simp add: db_three_def row_unknown_def row_old_def row_recent_def new_row_def noaa_m10_def)

section \<open>Flare queries: the rows of the last 24 hours\<close>


lemma length_filter_insort_key:
  "length (filter Q (insort_key k x xs)) = length (filter Q (x # xs))"
  by (induction xs) auto

lemma length_filter_sort_key:
  "length (filter Q (sort_key k xs)) = length (filter Q xs)"
  by (induction xs) (simp_all add: length_filter_insort_key)

lemma length_filter_split:
  "length (filter Q (filter A xs)) + length (filter Q (filter (\<lambda>x. \<not> A x) xs))
     = length (filter Q xs)"
  by (induction xs) auto

lemma set_order_by_timestamp_desc: "set (order_by_timestamp_desc rs) = set rs"
  by (auto simp: order_by_timestamp_desc_def)

lemma length_filter_order_by_timestamp_desc:
  "length (filter Q (order_by_timestamp_desc rs)) = length (filter Q rs)"
proof -
  have "length (filter Q (filter (\<lambda>r. event_timestamp r \<noteq> None) rs))
        + length (filter Q (filter (\<lambda>r. \<not> event_timestamp r \<noteq> None) rs))
        = length (filter Q rs)"
    by (rule length_filter_split)
  then show ?thesis
    by (simp add: order_by_timestamp_desc_def length_filter_sort_key)
qed

lemma length_order_by_timestamp_desc: "length (order_by_timestamp_desc rs) = length rs"
  using length_filter_order_by_timestamp_desc [of "\<lambda>_. True" rs] by simp

lemma count_class_select:
  "count_class c (map select_columns rs) = length (filter (\<lambda>r. startswith (flare_class r) c) rs)"
  by (simp add: count_class_def filter_map o_def select_columns_def)

lemma those_map_Some:
  "(\<forall>x \<in> set xs. f x \<noteq> None) \<Longrightarrow> those (map f xs) = Some (map (\<lambda>x. the (f x)) xs)"
  by (induction xs) auto

lemma strongest_returns:
  assumes "\<forall>f \<in> set flares. flare_strength (d_flare_class f) \<noteq> None"
  shows "\<exists>s. strongest flares = Inr s"
proof -
  have "those (map (\<lambda>f. flare_strength (d_flare_class f)) flares)
        = Some (map (\<lambda>f. the (flare_strength (d_flare_class f))) flares)"
    using assms by (rule those_map_Some)
  then show ?thesis
    by (simp add: strongest_def split: list.splits)
qed

lemma last_24h_where_iff:
  "last_24h_where c r \<longleftrightarrow>
     event_timestamp r = None \<or> (\<exists>t. event_timestamp r = Some t \<and> c \<le> t)"
  by (auto simp: last_24h_where_def split: option.splits)

lemma get_flares_last_24h_rows:
  "get_flares_last_24h now db =
     map select_columns (order_by_timestamp_desc (filter (last_24h_where (now - 86400)) (rows db)))"
  by (simp add: get_flares_last_24h_def)

text \<open>
  Claim C10. Whatever the clock reads, \<^verbatim>\<open>get_flares_last_24h\<close> returns every stored row
  whose \<^verbatim>\<open>event_timestamp\<close> is null, whatever its \<^verbatim>\<open>event_date\<close>: the result holds
  exactly the rows with a null timestamp or a timestamp of the last 24 hours, each once.
  When \<^verbatim>\<open>flare_strength\<close> raises on no stored class, \<^verbatim>\<open>get_flares_summary\<close> returns, its
  list is that result, and its total and its X, M and C counts count the null-timestamp
  rows with the recent ones.
\<close>

theorem get_flares_last_24h_null_rows:
  "(\<forall>r \<in> set (rows db). event_timestamp r = None \<longrightarrow>
       select_columns r \<in> set (get_flares_last_24h now db))
   \<and> set (get_flares_last_24h now db) =
       select_columns ` {r \<in> set (rows db). event_timestamp r = None \<or>
                           (\<exists>t. event_timestamp r = Some t \<and> now - 86400 \<le> t)}
   \<and> length (get_flares_last_24h now db) =
       length (filter (\<lambda>r. event_timestamp r = None \<or>
                           (\<exists>t. event_timestamp r = Some t \<and> now - 86400 \<le> t)) (rows db))
   \<and> ((\<forall>r \<in> set (rows db). flare_strength (flare_class r) \<noteq> None) \<longrightarrow>
        (\<exists>s. get_flares_summary now db = Inr s
           \<and> flares_list s = get_flares_last_24h now db
           \<and> total_count s = length (get_flares_last_24h now db)
           \<and> x_class_count s =
               length (filter (\<lambda>r. (event_timestamp r = None \<or>
                         (\<exists>t. event_timestamp r = Some t \<and> now - 86400 \<le> t))
                         \<and> startswith (flare_class r) (CHR ''X'')) (rows db))
           \<and> m_class_count s =
               length (filter (\<lambda>r. (event_timestamp r = None \<or>
                         (\<exists>t. event_timestamp r = Some t \<and> now - 86400 \<le> t))
                         \<and> startswith (flare_class r) (CHR ''M'')) (rows db))
           \<and> c_class_count s =
               length (filter (\<lambda>r. (event_timestamp r = None \<or>
                         (\<exists>t. event_timestamp r = Some t \<and> now - 86400 \<le> t))
                         \<and> startswith (flare_class r) (CHR ''C'')) (rows db))))"
proof -
  let ?c = "now - 86400"
  let ?W = "\<lambda>r. event_timestamp r = None \<or> (\<exists>t. event_timestamp r = Some t \<and> ?c \<le> t)"
  let ?sel = "filter (last_24h_where ?c) (rows db)"
  let ?fl = "get_flares_last_24h now db"
  have W: "last_24h_where ?c = ?W"
    by (rule ext) (rule last_24h_where_iff)
  have fl: "?fl = map select_columns (order_by_timestamp_desc ?sel)"
    by (rule get_flares_last_24h_rows)
  have s: "set ?fl = select_columns ` {r \<in> set (rows db). ?W r}"
    unfolding fl W by (simp add: set_order_by_timestamp_desc)
  have a: "\<forall>r \<in> set (rows db). event_timestamp r = None \<longrightarrow> select_columns r \<in> set ?fl"
    unfolding s by blast
  have l: "length ?fl = length (filter ?W (rows db))"
    unfolding fl W by (simp add: length_order_by_timestamp_desc)
  have cnt: "count_class c ?fl =
      length (filter (\<lambda>r. ?W r \<and> startswith (flare_class r) c) (rows db))" for c
  proof -
    have "count_class c ?fl = length (filter (\<lambda>r. startswith (flare_class r) c) ?sel)"
      unfolding fl by (simp add: count_class_select length_filter_order_by_timestamp_desc)
    also have "\<dots> = length (filter (\<lambda>r. ?W r \<and> startswith (flare_class r) c) (rows db))"
      unfolding W by (simp add: conj_commute)
    finally show ?thesis .
  qed
  have sum: "\<exists>s. get_flares_summary now db = Inr s
           \<and> flares_list s = ?fl \<and> total_count s = length ?fl
           \<and> x_class_count s = count_class (CHR ''X'') ?fl
           \<and> m_class_count s = count_class (CHR ''M'') ?fl
           \<and> c_class_count s = count_class (CHR ''C'') ?fl"
    if ok: "\<forall>r \<in> set (rows db). flare_strength (flare_class r) \<noteq> None"
  proof (cases "?fl = []")
    case True
    then show ?thesis
      by (simp add: get_flares_summary_def count_class_def)
  next
    case False
    have "\<forall>f \<in> set ?fl. flare_strength (d_flare_class f) \<noteq> None"
      unfolding s using ok by (auto simp: select_columns_def)
    then obtain st where "strongest ?fl = Inr st"
      using strongest_returns by blast
    with False show ?thesis
      by (simp add: get_flares_summary_def Let_def)
  qed
  show ?thesis
    using a s l sum unfolding cnt by blast
qed


theorem get_flares_last_24h_null_rows_witness:
  "event_timestamp row_unknown = None \<and> row_unknown \<in> set (rows db_three)
   \<and> select_columns row_unknown \<in> set (get_flares_last_24h 1762063200 db_three)
   \<and> (\<exists>s. get_flares_summary 1762063200 db_three = Inr s
          \<and> total_count s = 2 \<and> x_class_count s = 1 \<and> m_class_count s = 1
          \<and> c_class_count s = 0)"
proof -
  let ?W = "\<lambda>r. event_timestamp r = None \<or>
      (\<exists>t. event_timestamp r = Some t \<and> (1762063200::int) - 86400 \<le> t)"
  have ok: "\<forall>r \<in> set (rows db_three). flare_strength (flare_class r) \<noteq> None"
    by code_simp
  have u: "event_timestamp row_unknown = None" "row_unknown \<in> set (rows db_three)"
    by (simp_all add: db_three_def row_unknown_def)
  have n: "length (filter ?W (rows db_three)) = 2"
    by (simp add: db_three_def row_unknown_def row_old_def row_recent_def new_row_def
        noaa_m10_def)
  have x: "length (filter (\<lambda>r. ?W r \<and> startswith (flare_class r) (CHR ''X'')) (rows db_three)) = 1"
    by (simp add: db_three_def row_unknown_def row_old_def row_recent_def new_row_def
        noaa_m10_def startswith_def)
  have m: "length (filter (\<lambda>r. ?W r \<and> startswith (flare_class r) (CHR ''M'')) (rows db_three)) = 1"
    by (simp add: db_three_def row_unknown_def row_old_def row_recent_def new_row_def
        noaa_m10_def startswith_def)
  have c: "length (filter (\<lambda>r. ?W r \<and> startswith (flare_class r) (CHR ''C'')) (rows db_three)) = 0"
    by (simp add: db_three_def row_unknown_def row_old_def row_recent_def new_row_def
        noaa_m10_def startswith_def)
  note t = get_flares_last_24h_null_rows [of db_three 1762063200]
  from t u have a: "select_columns row_unknown \<in> set (get_flares_last_24h 1762063200 db_three)"
    by blast
  from t ok obtain s where s: "get_flares_summary 1762063200 db_three = Inr s"
    "total_count s = length (get_flares_last_24h 1762063200 db_three)"
    "x_class_count s = length (filter (\<lambda>r. ?W r \<and> startswith (flare_class r) (CHR ''X'')) (rows db_three))"
    "m_class_count s = length (filter (\<lambda>r. ?W r \<and> startswith (flare_class r) (CHR ''M'')) (rows db_three))"
    "c_class_count s = length (filter (\<lambda>r. ?W r \<and> startswith (flare_class r) (CHR ''C'')) (rows db_three))"
    by blast
  from t have l: "length (get_flares_last_24h 1762063200 db_three) = length (filter ?W (rows db_three))"
    by blast
  from s l n x m c have "get_flares_summary 1762063200 db_three = Inr s
          \<and> total_count s = 2 \<and> x_class_count s = 1 \<and> m_class_count s = 1
          \<and> c_class_count s = 0"
    by simp
  with u a show ?thesis by blast
qed

section \<open>Flare resolver: which row is matched\<close>

lemma find_existing_Some:
  "find_existing strptime f src mm cs = Some ex \<Longrightarrow>
     ex \<in> set cs \<and> within_tolerance mm ex \<and> match_found strptime f src ex"
  by (induction cs) (auto split: if_splits)

lemma find_existing_None:
  "find_existing strptime f src mm cs = None \<longleftrightarrow>
     (\<forall>c \<in> set cs. \<not> (within_tolerance mm c \<and> match_found strptime f src c))"
  by (induction cs) auto

lemma find_existing_first:
  "find_existing strptime f src mm cs = Some ex \<Longrightarrow>
     \<exists>before after. cs = before @ ex # after \<and>
       (\<forall>c \<in> set before. \<not> (within_tolerance mm c \<and> match_found strptime f src c))"
proof (induction cs)
  case Nil
  then show ?case by simp
next
  case (Cons c cs)
  show ?case
  proof (cases "within_tolerance mm c \<and> match_found strptime f src c")
    case True
    with Cons.prems have "ex = c" by simp
    then have "c # cs = [] @ ex # cs" by simp
    then show ?thesis by (metis empty_iff list.set(1))
  next
    case False
    with Cons.prems have "find_existing strptime f src mm cs = Some ex"
      by (auto split: if_splits)
    from Cons.IH [OF this] obtain before after where
      "cs = before @ ex # after"
      "\<forall>x \<in> set before. \<not> (within_tolerance mm x \<and> match_found strptime f src x)"
      by blast
    with False have "c # cs = (c # before) @ ex # after \<and>
      (\<forall>x \<in> set (c # before). \<not> (within_tolerance mm x \<and> match_found strptime f src x))"
      by simp
    then show ?thesis by blast
  qed
qed

lemma set_existing_candidates:
  "set (existing_candidates mm f db) \<subseteq> {r \<in> set (rows db). event_date r = event_date f}"
  by (auto simp: existing_candidates_def order_by_timestamp_desc_def split: option.splits)

lemma set_existing_candidates_Some:
  "set (existing_candidates (Some p) f db) = {r \<in> set (rows db). event_date r = event_date f}"
  by (auto simp: existing_candidates_def order_by_timestamp_desc_def)

lemma store_flare_insert:
  assumes "find_existing strptime f src (magnitude_match (flare_class f))
             (existing_candidates (magnitude_match (flare_class f)) f db) = None"
  shows "store_flare strptime src now (db, n, u) f =
     (db\<lparr>rows := rows db @ [new_row f src now (next_id db)], seq := next_id db\<rparr>, n + 1, u)"
  using assms by (simp add: store_flare_def Let_def)

lemma store_flare_merge:
  assumes "find_existing strptime f src (magnitude_match (flare_class f))
             (existing_candidates (magnitude_match (flare_class f)) f db) = Some ex"
  shows "store_flare strptime src now (db, n, u) f =
     (if should_update (updates_for f src ex)
      then (db\<lparr>rows := map (\<lambda>r. if row_id r = row_id ex
                                 then apply_updates (updates_for f src ex) now r else r) (rows db)\<rparr>,
            n, u + 1)
      else (db, n, u))"
  using assms by (simp add: store_flare_def Let_def)

lemma match_reason_cases:
  "(match_reason strptime f src ex = Some 1 \<longleftrightarrow> timestamp_match f ex)
   \<and> (match_reason strptime f src ex = Some 2 \<longleftrightarrow>
        \<not> timestamp_match f ex \<and> noaa_time_lmsal_peak strptime f src ex)
   \<and> (match_reason strptime f src ex = Some 3 \<longleftrightarrow>
        \<not> timestamp_match f ex \<and> \<not> noaa_time_lmsal_peak strptime f src ex
        \<and> lmsal_peak_noaa_time strptime f src ex)
   \<and> (match_reason strptime f src ex = Some 4 \<longleftrightarrow>
        \<not> timestamp_match f ex \<and> \<not> noaa_time_lmsal_peak strptime f src ex
        \<and> \<not> lmsal_peak_noaa_time strptime f src ex \<and> lmsal_peaks strptime f src ex)
   \<and> (match_reason strptime f src ex = Some 5 \<longleftrightarrow>
        \<not> timestamp_match f ex \<and> \<not> noaa_time_lmsal_peak strptime f src ex
        \<and> \<not> lmsal_peak_noaa_time strptime f src ex \<and> \<not> lmsal_peaks strptime f src ex
        \<and> location_window f ex)
   \<and> (match_reason strptime f src ex = None \<longleftrightarrow>
        \<not> timestamp_match f ex \<and> \<not> noaa_time_lmsal_peak strptime f src ex
        \<and> \<not> lmsal_peak_noaa_time strptime f src ex \<and> \<not> lmsal_peaks strptime f src ex
        \<and> \<not> location_window f ex)
   \<and> (match_reason strptime f src ex \<in> {None, Some 1, Some 2, Some 3, Some 4, Some 5})"
  by (simp add: match_reason_def)

lemma match_found_iff:
  "match_found strptime f src ex \<longleftrightarrow>
     timestamp_match f ex \<or> noaa_time_lmsal_peak strptime f src ex
     \<or> lmsal_peak_noaa_time strptime f src ex \<or> lmsal_peaks strptime f src ex
     \<or> location_window f ex"
  by (simp add: match_found_def match_reason_def)

lemma timestamp_match_iff:
  "timestamp_match f ex \<longleftrightarrow>
     (\<exists>a b. event_timestamp f = Some a \<and> event_timestamp ex = Some b \<and> \<bar>a - b\<bar> \<le> 5 * 60)"
  by (auto simp: timestamp_match_def split: option.splits)

lemma noaa_time_lmsal_peak_iff:
  "noaa_time_lmsal_peak strptime f src ex \<longleftrightarrow>
     src = ''NOAA'' \<and> source ex = ''LMSAL'' \<and>
     (\<exists>a p t. event_timestamp f = Some a \<and> a \<noteq> 0 \<and> peak_time ex = Some p \<and> p \<noteq> []
        \<and> strptime (event_date f @ '' '' @ p) = Some t \<and> \<bar>a - t\<bar> \<le> 2 * 60)"
  by (auto simp: noaa_time_lmsal_peak_def truthy_int_def truthy_str_def split: option.splits)

lemma lmsal_peak_noaa_time_iff:
  "lmsal_peak_noaa_time strptime f src ex \<longleftrightarrow>
     src = ''LMSAL'' \<and> source ex = ''NOAA'' \<and>
     (\<exists>p t b. peak_time f = Some p \<and> p \<noteq> [] \<and> event_timestamp ex = Some b \<and> b \<noteq> 0
        \<and> strptime (event_date f @ '' '' @ p) = Some t \<and> \<bar>t - b\<bar> \<le> 2 * 60)"
  by (auto simp: lmsal_peak_noaa_time_def truthy_int_def truthy_str_def split: option.splits)

lemma lmsal_peaks_iff:
  "lmsal_peaks strptime f src ex \<longleftrightarrow>
     src = ''LMSAL'' \<and> source ex = ''LMSAL'' \<and>
     (\<exists>p q t s. peak_time f = Some p \<and> p \<noteq> [] \<and> peak_time ex = Some q \<and> q \<noteq> []
        \<and> strptime (event_date f @ '' '' @ p) = Some t
        \<and> strptime (event_date f @ '' '' @ q) = Some s \<and> \<bar>t - s\<bar> \<le> 60)"
  by (auto simp: lmsal_peaks_def truthy_str_def split: option.splits)

lemma location_window_iff:
  "location_window f ex \<longleftrightarrow>
     (\<exists>l a b. location f = Some l \<and> location ex = Some l \<and> l \<noteq> []
        \<and> event_timestamp f = Some a \<and> a \<noteq> 0 \<and> event_timestamp ex = Some b \<and> b \<noteq> 0
        \<and> \<bar>a - b\<bar> \<le> 30 * 60)"
  by (auto simp: location_window_def truthy_int_def truthy_str_def split: option.splits)

lemma store_flare_no_match_inserts:
  assumes "\<forall>r \<in> set (rows db). event_date r = event_date f \<longrightarrow>
             within_tolerance (magnitude_match (flare_class f)) r \<longrightarrow>
             match_reason strptime f src r = None"
  shows "store_flare strptime src now (db, n, u) f =
     (db\<lparr>rows := rows db @ [new_row f src now (next_id db)], seq := next_id db\<rparr>, n + 1, u)"
proof -
  let ?mm = "magnitude_match (flare_class f)"
  have "\<forall>c \<in> set (existing_candidates ?mm f db).
          \<not> (within_tolerance ?mm c \<and> match_found strptime f src c)"
    using assms set_existing_candidates [of ?mm f db]
    by (auto simp: match_found_def)
  then have "find_existing strptime f src ?mm (existing_candidates ?mm f db) = None"
    by (simp only: find_existing_None)
  then show ?thesis by (rule store_flare_insert)
qed

lemma store_flares_single:
  "store_flares strptime now [f] src db =
     (case store_flare strptime src now (db, 0, 0) f of
        (db', new_count, updated_count) \<Rightarrow> (new_count, db'))"
  by (simp add: store_flares_def)

lemma store_flares_no_match_inserts:
  assumes "\<forall>r \<in> set (rows db). event_date r = event_date f \<longrightarrow>
             within_tolerance (magnitude_match (flare_class f)) r \<longrightarrow>
             match_reason strptime f src r = None"
  shows "store_flares strptime now [f] src db =
     (1, db\<lparr>rows := rows db @ [new_row f src now (next_id db)], seq := next_id db\<rparr>)"
  using store_flare_no_match_inserts [OF assms, of now 0 0]
  by (simp add: store_flares_single)

text \<open>
  Claim C3. For a candidate row inside the magnitude tolerance the five conditions are
  tried in the order (1) both start timestamps, at most 5 minutes apart; (2) incoming NOAA
  time against the peak time of an LMSAL row, at most 2 minutes; (3) incoming LMSAL peak
  time against the time of a NOAA row, at most 2 minutes; (4) both LMSAL peak times, at
  most 1 minute; (5) the same location with start timestamps at most 30 minutes apart.
  The statement that sets \<^verbatim>\<open>match_found\<close> is the first whose condition holds, and none
  after it is tried. In conditions 2, 3 and 5 a timestamp \<open>0\<close> and an empty string count as
  absent, as Python's truth test has it. When no row of the date inside the tolerance
  satisfies a condition, the incoming flare is inserted as a new row.
\<close>

theorem match_predicates_in_order:
  "(match_reason strptime f src ex = Some 1 \<longleftrightarrow> timestamp_match f ex)
   \<and> (match_reason strptime f src ex = Some 2 \<longleftrightarrow>
        \<not> timestamp_match f ex \<and> noaa_time_lmsal_peak strptime f src ex)
   \<and> (match_reason strptime f src ex = Some 3 \<longleftrightarrow>
        \<not> timestamp_match f ex \<and> \<not> noaa_time_lmsal_peak strptime f src ex
        \<and> lmsal_peak_noaa_time strptime f src ex)
   \<and> (match_reason strptime f src ex = Some 4 \<longleftrightarrow>
        \<not> timestamp_match f ex \<and> \<not> noaa_time_lmsal_peak strptime f src ex
        \<and> \<not> lmsal_peak_noaa_time strptime f src ex \<and> lmsal_peaks strptime f src ex)
   \<and> (match_reason strptime f src ex = Some 5 \<longleftrightarrow>
        \<not> timestamp_match f ex \<and> \<not> noaa_time_lmsal_peak strptime f src ex
        \<and> \<not> lmsal_peak_noaa_time strptime f src ex \<and> \<not> lmsal_peaks strptime f src ex
        \<and> location_window f ex)
   \<and> (match_reason strptime f src ex = None \<longleftrightarrow>
        \<not> timestamp_match f ex \<and> \<not> noaa_time_lmsal_peak strptime f src ex
        \<and> \<not> lmsal_peak_noaa_time strptime f src ex \<and> \<not> lmsal_peaks strptime f src ex
        \<and> \<not> location_window f ex)
   \<and> (match_reason strptime f src ex \<in> {None, Some 1, Some 2, Some 3, Some 4, Some 5})
   \<and> (match_found strptime f src ex \<longleftrightarrow> match_reason strptime f src ex \<noteq> None)
   \<and> (timestamp_match f ex \<longleftrightarrow>
        (\<exists>a b. event_timestamp f = Some a \<and> event_timestamp ex = Some b \<and> \<bar>a - b\<bar> \<le> 5 * 60))
   \<and> (noaa_time_lmsal_peak strptime f src ex \<longleftrightarrow>
        src = ''NOAA'' \<and> source ex = ''LMSAL'' \<and>
        (\<exists>a p t. event_timestamp f = Some a \<and> a \<noteq> 0 \<and> peak_time ex = Some p \<and> p \<noteq> []
           \<and> strptime (event_date f @ '' '' @ p) = Some t \<and> \<bar>a - t\<bar> \<le> 2 * 60))
   \<and> (lmsal_peak_noaa_time strptime f src ex \<longleftrightarrow>
        src = ''LMSAL'' \<and> source ex = ''NOAA'' \<and>
        (\<exists>p t b. peak_time f = Some p \<and> p \<noteq> [] \<and> event_timestamp ex = Some b \<and> b \<noteq> 0
           \<and> strptime (event_date f @ '' '' @ p) = Some t \<and> \<bar>t - b\<bar> \<le> 2 * 60))
   \<and> (lmsal_peaks strptime f src ex \<longleftrightarrow>
        src = ''LMSAL'' \<and> source ex = ''LMSAL'' \<and>
        (\<exists>p q t s. peak_time f = Some p \<and> p \<noteq> [] \<and> peak_time ex = Some q \<and> q \<noteq> []
           \<and> strptime (event_date f @ '' '' @ p) = Some t
           \<and> strptime (event_date f @ '' '' @ q) = Some s \<and> \<bar>t - s\<bar> \<le> 60))
   \<and> (location_window f ex \<longleftrightarrow>
        (\<exists>l a b. location f = Some l \<and> location ex = Some l \<and> l \<noteq> []
           \<and> event_timestamp f = Some a \<and> a \<noteq> 0 \<and> event_timestamp ex = Some b \<and> b \<noteq> 0
           \<and> \<bar>a - b\<bar> \<le> 30 * 60))
   \<and> ((\<forall>r \<in> set (rows db). event_date r = event_date f \<longrightarrow>
          within_tolerance (magnitude_match (flare_class f)) r \<longrightarrow>
          match_reason strptime f src r = None) \<longrightarrow>
        store_flare strptime src now (db, n, u) f =
          (db\<lparr>rows := rows db @ [new_row f src now (next_id db)], seq := next_id db\<rparr>,
           n + 1, u)
        \<and> store_flares strptime now [f] src db =
          (1, db\<lparr>rows := rows db @ [new_row f src now (next_id db)], seq := next_id db\<rparr>))"
proof -
  note c = match_reason_cases [of strptime f src ex]
  have m: "match_found strptime f src ex \<longleftrightarrow> match_reason strptime f src ex \<noteq> None"
    by (simp add: match_found_def)
  note p1 = timestamp_match_iff [of f ex]
  note p2 = noaa_time_lmsal_peak_iff [of strptime f src ex]
  note p3 = lmsal_peak_noaa_time_iff [of strptime f src ex]
  note p4 = lmsal_peaks_iff [of strptime f src ex]
  note p5 = location_window_iff [of f ex]
  have ins: "(\<forall>r \<in> set (rows db). event_date r = event_date f \<longrightarrow>
          within_tolerance (magnitude_match (flare_class f)) r \<longrightarrow>
          match_reason strptime f src r = None) \<longrightarrow>
        store_flare strptime src now (db, n, u) f =
          (db\<lparr>rows := rows db @ [new_row f src now (next_id db)], seq := next_id db\<rparr>,
           n + 1, u)
        \<and> store_flares strptime now [f] src db =
          (1, db\<lparr>rows := rows db @ [new_row f src now (next_id db)], seq := next_id db\<rparr>)"
    using store_flare_no_match_inserts [of db f strptime src now n u]
      store_flares_no_match_inserts [of db f strptime src now]
    by blast
  show ?thesis
    apply (intro conjI)
    using c apply blast
    using c apply blast
    using c apply blast
    using c apply blast
    using c apply blast
    using c apply blast
    using c apply blast
    apply (rule m)
    apply (rule p1)
    apply (rule p2)
    apply (rule p3)
    apply (rule p4)
    apply (rule p5)
    apply (rule ins)
    done
qed

theorem match_predicates_in_order_witness:
  "timestamp_match lmsal_m11 row_lmsal \<and> location_window lmsal_m11 row_lmsal
   \<and> match_reason strptime_utc lmsal_m11 ''LMSAL'' row_lmsal = Some 1
   \<and> match_reason strptime_utc noaa_m10 ''NOAA'' row_lmsal = Some 2
   \<and> match_reason strptime_utc lmsal_m11 ''LMSAL'' row_recent = Some 3
   \<and> match_reason strptime_utc lmsal_unknown ''LMSAL'' row_lmsal_unknown = Some 4
   \<and> match_reason strptime_utc lmsal_m11 ''LMSAL'' row_lmsal_late = Some 5
   \<and> match_reason strptime_utc noaa_m10 ''NOAA'' row_later = None
   \<and> store_flare strptime_utc ''NOAA'' 1762070000 (db_later, 0, 0) noaa_m10 =
       (\<lparr> rows = [row_later, new_row noaa_m10 ''NOAA'' 1762070000 2], seq = 2 \<rparr>, 1, 0)
   \<and> store_flares strptime_utc 1762070000 [noaa_m10] ''NOAA'' db_later =
       (1, \<lparr> rows = [row_later, new_row noaa_m10 ''NOAA'' 1762070000 2], seq = 2 \<rparr>)"
proof -
  note t = match_predicates_in_order
  note c1 = t [THEN conjunct1]
  note c2 = t [THEN conjunct2, THEN conjunct1]
  note c3 = t [THEN conjunct2, THEN conjunct2, THEN conjunct1]
  note c4 = t [THEN conjunct2, THEN conjunct2, THEN conjunct2, THEN conjunct1]
  note c5 = t [THEN conjunct2, THEN conjunct2, THEN conjunct2, THEN conjunct2, THEN conjunct1]
  note c6 = t [THEN conjunct2, THEN conjunct2, THEN conjunct2, THEN conjunct2, THEN conjunct2,
    THEN conjunct1]
  note last = t [THEN conjunct2, THEN conjunct2, THEN conjunct2,
    THEN conjunct2, THEN conjunct2, THEN conjunct2, THEN conjunct2, THEN conjunct2,
    THEN conjunct2, THEN conjunct2, THEN conjunct2, THEN conjunct2, THEN conjunct2, THEN mp]
  have p1: "timestamp_match lmsal_m11 row_lmsal"
    by code_simp
  have p5: "location_window lmsal_m11 row_lmsal"
    by code_simp
  have r1: "match_reason strptime_utc lmsal_m11 ''LMSAL'' row_lmsal = Some 1"
    using c1 [of strptime_utc lmsal_m11 "''LMSAL''" row_lmsal] p1 by simp
  have "\<not> timestamp_match noaa_m10 row_lmsal"
    "noaa_time_lmsal_peak strptime_utc noaa_m10 ''NOAA'' row_lmsal"
    by code_simp+
  then have r2: "match_reason strptime_utc noaa_m10 ''NOAA'' row_lmsal = Some 2"
    using c2 [of strptime_utc noaa_m10 "''NOAA''" row_lmsal] by simp
  have "\<not> timestamp_match lmsal_m11 row_recent"
    "\<not> noaa_time_lmsal_peak strptime_utc lmsal_m11 ''LMSAL'' row_recent"
    "lmsal_peak_noaa_time strptime_utc lmsal_m11 ''LMSAL'' row_recent"
    by code_simp+
  then have r3: "match_reason strptime_utc lmsal_m11 ''LMSAL'' row_recent = Some 3"
    using c3 [of strptime_utc lmsal_m11 "''LMSAL''" row_recent] by simp
  have "\<not> timestamp_match lmsal_unknown row_lmsal_unknown"
    "\<not> noaa_time_lmsal_peak strptime_utc lmsal_unknown ''LMSAL'' row_lmsal_unknown"
    "\<not> lmsal_peak_noaa_time strptime_utc lmsal_unknown ''LMSAL'' row_lmsal_unknown"
    "lmsal_peaks strptime_utc lmsal_unknown ''LMSAL'' row_lmsal_unknown"
    by code_simp+
  then have r4: "match_reason strptime_utc lmsal_unknown ''LMSAL'' row_lmsal_unknown = Some 4"
    using c4 [of strptime_utc lmsal_unknown "''LMSAL''" row_lmsal_unknown] by simp
  have "\<not> timestamp_match lmsal_m11 row_lmsal_late"
    "\<not> noaa_time_lmsal_peak strptime_utc lmsal_m11 ''LMSAL'' row_lmsal_late"
    "\<not> lmsal_peak_noaa_time strptime_utc lmsal_m11 ''LMSAL'' row_lmsal_late"
    "\<not> lmsal_peaks strptime_utc lmsal_m11 ''LMSAL'' row_lmsal_late"
    "location_window lmsal_m11 row_lmsal_late"
    by code_simp+
  then have r5: "match_reason strptime_utc lmsal_m11 ''LMSAL'' row_lmsal_late = Some 5"
    using c5 [of strptime_utc lmsal_m11 "''LMSAL''" row_lmsal_late] by simp
  have "\<not> timestamp_match noaa_m10 row_later"
    "\<not> noaa_time_lmsal_peak strptime_utc noaa_m10 ''NOAA'' row_later"
    "\<not> lmsal_peak_noaa_time strptime_utc noaa_m10 ''NOAA'' row_later"
    "\<not> lmsal_peaks strptime_utc noaa_m10 ''NOAA'' row_later"
    "\<not> location_window noaa_m10 row_later"
    by code_simp+
  then have r0: "match_reason strptime_utc noaa_m10 ''NOAA'' row_later = None"
    using c6 [of strptime_utc noaa_m10 "''NOAA''" row_later] by simp
  have none: "\<forall>r \<in> set (rows db_later). event_date r = event_date noaa_m10 \<longrightarrow>
          within_tolerance (magnitude_match (flare_class noaa_m10)) r \<longrightarrow>
          match_reason strptime_utc noaa_m10 ''NOAA'' r = None"
    using r0 by (simp add: db_later_def)
  have e: "db_later\<lparr>rows := rows db_later @ [new_row noaa_m10 ''NOAA'' 1762070000 (next_id db_later)],
                seq := next_id db_later\<rparr>
      = \<lparr> rows = [row_later, new_row noaa_m10 ''NOAA'' 1762070000 2], seq = 2 \<rparr>"
    by (simp add: db_later_def next_id_def row_later_def new_row_def)
  note l = last [of db_later noaa_m10 strptime_utc "''NOAA''" 1762070000 0 0, OF none]
  from l have ins: "store_flare strptime_utc ''NOAA'' 1762070000 (db_later, 0, 0) noaa_m10 =
       (\<lparr> rows = [row_later, new_row noaa_m10 ''NOAA'' 1762070000 2], seq = 2 \<rparr>, 1, 0)"
    unfolding e by simp
  from l have batch: "store_flares strptime_utc 1762070000 [noaa_m10] ''NOAA'' db_later =
       (1, \<lparr> rows = [row_later, new_row noaa_m10 ''NOAA'' 1762070000 2], seq = 2 \<rparr>)"
    unfolding e by simp
  from p1 p5 r1 r2 r3 r4 r5 r0 ins batch show ?thesis by (intro conjI)
qed

section \<open>Flare resolver: the magnitude tolerance\<close>




lemma row_id_apply_updates: "row_id (apply_updates u now r) = row_id r"
  by (simp add: apply_updates_def)




section \<open>Flare resolver: records without a start timestamp\<close>

lemma unknown_existing_reasons:
  assumes "event_timestamp ex = None"
  shows "\<not> timestamp_match f ex" and "\<not> lmsal_peak_noaa_time strptime f src ex"
    and "\<not> location_window f ex"
    and "match_reason strptime f src ex \<in> {None, Some 2, Some 4}"
proof -
  show 1: "\<not> timestamp_match f ex"
    using assms by (simp add: timestamp_match_def split: option.splits)
  show 3: "\<not> lmsal_peak_noaa_time strptime f src ex"
    using assms by (simp add: lmsal_peak_noaa_time_def truthy_int_def)
  show 5: "\<not> location_window f ex"
    using assms by (simp add: location_window_def truthy_int_def)
  from 1 3 5 show "match_reason strptime f src ex \<in> {None, Some 2, Some 4}"
    by (simp add: match_reason_def)
qed

lemma unknown_incoming_reasons:
  assumes "event_timestamp f = None"
  shows "\<not> timestamp_match f ex" and "\<not> noaa_time_lmsal_peak strptime f src ex"
    and "\<not> location_window f ex"
    and "match_reason strptime f src ex \<in> {None, Some 3, Some 4}"
proof -
  show 1: "\<not> timestamp_match f ex"
    using assms by (simp add: timestamp_match_def)
  show 2: "\<not> noaa_time_lmsal_peak strptime f src ex"
    using assms by (simp add: noaa_time_lmsal_peak_def truthy_int_def)
  show 5: "\<not> location_window f ex"
    using assms by (simp add: location_window_def truthy_int_def)
  from 1 2 5 show "match_reason strptime f src ex \<in> {None, Some 3, Some 4}"
    by (simp add: match_reason_def)
qed

text \<open>
  Claim C8, as the code has it. A record whose start timestamp is unknown is never matched
  by condition 1 nor by condition 5: both read both start timestamps. A stored row
  without timestamp can be matched by condition 2 or 4 only (they read its peak time), an
  incoming flare without timestamp by condition 3 or 4 only; when both lack the timestamp,
  a match is found exactly when condition 4 holds.
\<close>

theorem unknown_timestamp_matching:
  "(event_timestamp ex = None \<longrightarrow>
      \<not> timestamp_match f ex \<and> \<not> lmsal_peak_noaa_time strptime f src ex
      \<and> \<not> location_window f ex
      \<and> match_reason strptime f src ex \<in> {None, Some 2, Some 4})
   \<and> (event_timestamp f = None \<longrightarrow>
      \<not> timestamp_match f ex \<and> \<not> noaa_time_lmsal_peak strptime f src ex
      \<and> \<not> location_window f ex
      \<and> match_reason strptime f src ex \<in> {None, Some 3, Some 4})
   \<and> (event_timestamp f = None \<and> event_timestamp ex = None \<longrightarrow>
      (match_found strptime f src ex \<longleftrightarrow> lmsal_peaks strptime f src ex))"
proof -
  have both: "match_found strptime f src ex \<longleftrightarrow> lmsal_peaks strptime f src ex"
    if "event_timestamp f = None" "event_timestamp ex = None"
    using unknown_existing_reasons [OF that(2)] unknown_incoming_reasons [OF that(1)]
    by (simp add: match_found_iff)
  have a: "event_timestamp ex = None \<longrightarrow>
      \<not> timestamp_match f ex \<and> \<not> lmsal_peak_noaa_time strptime f src ex
      \<and> \<not> location_window f ex
      \<and> match_reason strptime f src ex \<in> {None, Some 2, Some 4}"
    by (intro impI conjI) (erule unknown_existing_reasons)+
  have b: "event_timestamp f = None \<longrightarrow>
      \<not> timestamp_match f ex \<and> \<not> noaa_time_lmsal_peak strptime f src ex
      \<and> \<not> location_window f ex
      \<and> match_reason strptime f src ex \<in> {None, Some 3, Some 4}"
    by (intro impI conjI) (erule unknown_incoming_reasons)+
  have c: "event_timestamp f = None \<and> event_timestamp ex = None \<longrightarrow>
      (match_found strptime f src ex \<longleftrightarrow> lmsal_peaks strptime f src ex)"
    using both by simp
  from a b c show ?thesis by (intro conjI)
qed

theorem unknown_timestamp_matching_witness:
  "event_timestamp row_lmsal_unknown = None \<and> event_timestamp lmsal_unknown = None
   \<and> match_reason strptime_utc lmsal_m11 ''LMSAL'' row_lmsal_unknown \<in> {None, Some 2, Some 4}
   \<and> \<not> location_window lmsal_m11 row_lmsal_unknown
   \<and> match_reason strptime_utc lmsal_unknown ''LMSAL'' row_recent \<in> {None, Some 3, Some 4}
   \<and> lmsal_peaks strptime_utc lmsal_unknown ''LMSAL'' row_lmsal_unknown
   \<and> match_found strptime_utc lmsal_unknown ''LMSAL'' row_lmsal_unknown"
proof -
  have e: "event_timestamp row_lmsal_unknown = None"
    by (simp add: row_lmsal_unknown_def)
  have i: "event_timestamp lmsal_unknown = None"
    by (simp add: lmsal_unknown_def)
  have p4: "lmsal_peaks strptime_utc lmsal_unknown ''LMSAL'' row_lmsal_unknown"
    by (simp add: lmsal_unknown_def row_lmsal_unknown_def row_lmsal_def new_row_def lmsal_m11_def lmsal_peaks_def
        truthy_str_def strptime_utc_peak)
  note t1 = unknown_timestamp_matching [of row_lmsal_unknown lmsal_m11 strptime_utc "''LMSAL''"]
  note t2 = unknown_timestamp_matching [of row_lmsal_unknown lmsal_unknown strptime_utc "''LMSAL''"]
  from t1 e have r: "match_reason strptime_utc lmsal_m11 ''LMSAL'' row_lmsal_unknown
      \<in> {None, Some 2, Some 4}"
    by blast
  from t1 e have l: "\<not> location_window lmsal_m11 row_lmsal_unknown"
    by blast
  note t3 = unknown_timestamp_matching [of row_recent lmsal_unknown strptime_utc "''LMSAL''"]
  from t3 i have r': "match_reason strptime_utc lmsal_unknown ''LMSAL'' row_recent
      \<in> {None, Some 3, Some 4}"
    by blast
  from t2 e i p4 have m: "match_found strptime_utc lmsal_unknown ''LMSAL'' row_lmsal_unknown"
    by blast
  from e i r l r' p4 m show ?thesis by (intro conjI)
qed

text \<open>
  The claim as written fails on the LMSAL row without a start time: condition 4 matches
  it against the LMSAL report and condition 2 against the NOAA report, and condition 5
  does not hold although the two locations are the same string.
\<close>

theorem unknown_timestamp_counterexample:
  "event_timestamp row_lmsal_unknown = None
   \<and> match_reason strptime_utc lmsal_m11 ''LMSAL'' row_lmsal_unknown = Some 4
   \<and> match_reason strptime_utc noaa_m10 ''NOAA'' row_lmsal_unknown = Some 2
   \<and> location lmsal_m11 = Some ''N24E47'' \<and> location row_lmsal_unknown = Some ''N24E47''
   \<and> \<not> location_window lmsal_m11 row_lmsal_unknown"
  by (simp add: row_lmsal_unknown_def row_lmsal_def new_row_def lmsal_m11_def
      noaa_m10_def match_reason_def match_eval
      strptime_utc_peak)

section \<open>Flare resolver: the merge of a matched row\<close>

lemma fixed_columns_apply_updates:
  "event_date (apply_updates u now r) = event_date r"
  "raw_text (apply_updates u now r) = raw_text r"
  by (simp_all add: apply_updates_def)

lemma no_preference_class_source:
  assumes "\<not> prefer_incoming src ex"
  shows "flare_class (apply_updates (updates_for f src ex) now ex) = flare_class ex"
    and "source (apply_updates (updates_for f src ex) now ex) = source ex"
  using assms by (simp_all add: apply_updates_def updates_for_def)

lemma no_preference_present:
  assumes "\<not> prefer_incoming src ex"
  shows "truthy_str (region ex) \<Longrightarrow>
           region (apply_updates (updates_for f src ex) now ex) = region ex"
    and "truthy_str (location ex) \<Longrightarrow>
           location (apply_updates (updates_for f src ex) now ex) = location ex"
    and "truthy_str (event_time ex) \<Longrightarrow>
           event_time (apply_updates (updates_for f src ex) now ex) = event_time ex"
    and "truthy_str (event_time ex) \<Longrightarrow>
           event_timestamp (apply_updates (updates_for f src ex) now ex) = event_timestamp ex"
    and "truthy_str (peak_time ex) \<Longrightarrow>
           peak_time (apply_updates (updates_for f src ex) now ex) = peak_time ex"
    and "truthy_str (end_time ex) \<Longrightarrow>
           end_time (apply_updates (updates_for f src ex) now ex) = end_time ex"
  using assms by (simp_all add: apply_updates_def updates_for_def)

lemma no_preference_lacking:
  assumes "\<not> prefer_incoming src ex"
  shows "region (apply_updates (updates_for f src ex) now ex) \<noteq> region ex \<Longrightarrow>
           \<not> truthy_str (region ex) \<and> truthy_str (region f)
           \<and> region (apply_updates (updates_for f src ex) now ex) = region f"
    and "location (apply_updates (updates_for f src ex) now ex) \<noteq> location ex \<Longrightarrow>
           \<not> truthy_str (location ex) \<and> truthy_str (location f)
           \<and> location (apply_updates (updates_for f src ex) now ex) = location f"
    and "event_time (apply_updates (updates_for f src ex) now ex) \<noteq> event_time ex \<Longrightarrow>
           \<not> truthy_str (event_time ex) \<and> truthy_str (event_time f)
           \<and> event_time (apply_updates (updates_for f src ex) now ex) = event_time f"
    and "peak_time (apply_updates (updates_for f src ex) now ex) \<noteq> peak_time ex \<Longrightarrow>
           \<not> truthy_str (peak_time ex) \<and> truthy_str (peak_time f)
           \<and> peak_time (apply_updates (updates_for f src ex) now ex) = peak_time f"
    and "end_time (apply_updates (updates_for f src ex) now ex) \<noteq> end_time ex \<Longrightarrow>
           \<not> truthy_str (end_time ex) \<and> truthy_str (end_time f)
           \<and> end_time (apply_updates (updates_for f src ex) now ex) = end_time f"
  using assms
  by (auto simp: apply_updates_def updates_for_def truthy_str_def split: option.splits if_splits)

lemma store_flare_merged_row:
  assumes m: "find_existing strptime f src (magnitude_match (flare_class f))
             (existing_candidates (magnitude_match (flare_class f)) f db) = Some ex"
      and d: "distinct (map row_id (rows db))"
      and r: "r' \<in> set (rows (fst (store_flare strptime src now (db, n, u) f)))"
      and i: "row_id r' = row_id ex"
  shows "r' = (if should_update (updates_for f src ex)
               then apply_updates (updates_for f src ex) now ex else ex)"
proof -
  from m have "ex \<in> set (existing_candidates (magnitude_match (flare_class f)) f db)"
    by (simp add: find_existing_Some)
  then have ex: "ex \<in> set (rows db)"
    using set_existing_candidates by blast
  have same: "x = ex" if "x \<in> set (rows db)" "row_id x = row_id ex" for x
    using that ex d by (auto simp: distinct_map inj_on_def)
  show ?thesis
  proof (cases "should_update (updates_for f src ex)")
    case True
    with r obtain x where x: "x \<in> set (rows db)"
      "r' = (if row_id x = row_id ex then apply_updates (updates_for f src ex) now x else x)"
      by (auto simp: store_flare_merge [OF m])
    with i have "row_id x = row_id ex"
      by (auto simp: row_id_apply_updates split: if_splits)
    with x same have "r' = apply_updates (updates_for f src ex) now ex" by auto
    with True show ?thesis by simp
  next
    case False
    with r have "r' \<in> set (rows db)"
      by (simp add: store_flare_merge [OF m])
    with i same False show ?thesis by simp
  qed
qed

lemma no_preference_merge:
  assumes p: "\<not> prefer_incoming src ex"
      and r: "r' = (if should_update (updates_for f src ex)
                    then apply_updates (updates_for f src ex) now ex else ex)"
  shows "flare_class r' = flare_class ex \<and> source r' = source ex"
    and "truthy_str (region ex) \<longrightarrow> region r' = region ex"
    and "truthy_str (location ex) \<longrightarrow> location r' = location ex"
    and "truthy_str (event_time ex) \<longrightarrow>
           event_time r' = event_time ex \<and> event_timestamp r' = event_timestamp ex"
    and "truthy_str (peak_time ex) \<longrightarrow> peak_time r' = peak_time ex"
    and "truthy_str (end_time ex) \<longrightarrow> end_time r' = end_time ex"
    and "region r' \<noteq> region ex \<longrightarrow> \<not> truthy_str (region ex) \<and> region r' = region f"
    and "location r' \<noteq> location ex \<longrightarrow> \<not> truthy_str (location ex) \<and> location r' = location f"
    and "event_time r' \<noteq> event_time ex \<longrightarrow>
           \<not> truthy_str (event_time ex) \<and> event_time r' = event_time f"
    and "peak_time r' \<noteq> peak_time ex \<longrightarrow>
           \<not> truthy_str (peak_time ex) \<and> peak_time r' = peak_time f"
    and "end_time r' \<noteq> end_time ex \<longrightarrow> \<not> truthy_str (end_time ex) \<and> end_time r' = end_time f"
    and "event_date r' = event_date ex \<and> raw_text r' = raw_text ex \<and> row_id r' = row_id ex"
proof -
  show "flare_class r' = flare_class ex \<and> source r' = source ex"
    using r no_preference_class_source [OF p] by simp
  show "truthy_str (region ex) \<longrightarrow> region r' = region ex"
    using r no_preference_present(1) [OF p] by simp
  show "truthy_str (location ex) \<longrightarrow> location r' = location ex"
    using r no_preference_present(2) [OF p] by simp
  show "truthy_str (event_time ex) \<longrightarrow>
           event_time r' = event_time ex \<and> event_timestamp r' = event_timestamp ex"
    using r no_preference_present(3,4) [OF p] by simp
  show "truthy_str (peak_time ex) \<longrightarrow> peak_time r' = peak_time ex"
    using r no_preference_present(5) [OF p] by simp
  show "truthy_str (end_time ex) \<longrightarrow> end_time r' = end_time ex"
    using r no_preference_present(6) [OF p] by simp
  show "region r' \<noteq> region ex \<longrightarrow> \<not> truthy_str (region ex) \<and> region r' = region f"
    using r no_preference_lacking(1) [OF p, of f now] by (simp split: if_splits)
  show "location r' \<noteq> location ex \<longrightarrow> \<not> truthy_str (location ex) \<and> location r' = location f"
    using r no_preference_lacking(2) [OF p, of f now] by (simp split: if_splits)
  show "event_time r' \<noteq> event_time ex \<longrightarrow>
           \<not> truthy_str (event_time ex) \<and> event_time r' = event_time f"
    using r no_preference_lacking(3) [OF p, of f now] by (simp split: if_splits)
  show "peak_time r' \<noteq> peak_time ex \<longrightarrow>
           \<not> truthy_str (peak_time ex) \<and> peak_time r' = peak_time f"
    using r no_preference_lacking(4) [OF p, of f now] by (simp split: if_splits)
  show "end_time r' \<noteq> end_time ex \<longrightarrow> \<not> truthy_str (end_time ex) \<and> end_time r' = end_time f"
    using r no_preference_lacking(5) [OF p, of f now] by (simp split: if_splits)
  show "event_date r' = event_date ex \<and> raw_text r' = raw_text ex \<and> row_id r' = row_id ex"
    using r by (simp add: fixed_columns_apply_updates row_id_apply_updates)
qed


text \<open>
  Claim C7, as the code has it. When the incoming report and the matched row come from the
  same source, a field that both carry keeps the value of the stored row, not the incoming
  one; class and source tag are unchanged.
\<close>

theorem equal_precision_keeps_existing:
  assumes "find_existing strptime f src (magnitude_match (flare_class f))
             (existing_candidates (magnitude_match (flare_class f)) f db) = Some ex"
      and "src = source ex"
      and "distinct (map row_id (rows db))"
      and "r' \<in> set (rows (fst (store_flare strptime src now (db, n, u) f)))"
      and "row_id r' = row_id ex"
  shows "flare_class r' = flare_class ex \<and> source r' = source ex
    \<and> (truthy_str (region f) \<and> truthy_str (region ex) \<longrightarrow> region r' = region ex)
    \<and> (truthy_str (location f) \<and> truthy_str (location ex) \<longrightarrow> location r' = location ex)
    \<and> (truthy_str (event_time f) \<and> truthy_str (event_time ex) \<longrightarrow>
          event_time r' = event_time ex \<and> event_timestamp r' = event_timestamp ex)
    \<and> (truthy_str (peak_time f) \<and> truthy_str (peak_time ex) \<longrightarrow> peak_time r' = peak_time ex)
    \<and> (truthy_str (end_time f) \<and> truthy_str (end_time ex) \<longrightarrow> end_time r' = end_time ex)"
proof -
  have p: "\<not> prefer_incoming src ex"
    using assms(2) by (auto simp: prefer_incoming_def)
  have r: "r' = (if should_update (updates_for f src ex)
                 then apply_updates (updates_for f src ex) now ex else ex)"
    using assms(1,3,4,5) by (rule store_flare_merged_row)
  note k = no_preference_merge [OF p r]
  from k(1) k(2) k(3) k(4) k(5) k(6)
  show ?thesis by (intro conjI) simp_all
qed



theorem equal_precision_keeps_existing_witness:
  "source row_lmsal_noend = ''LMSAL''
   \<and> truthy_str (region lmsal_4275) \<and> truthy_str (region row_lmsal_noend)
   \<and> rows (fst (store_flare strptime_utc ''LMSAL'' 1762070000 (db_noend, 0, 0) lmsal_4275))
       = [row_lmsal_noend\<lparr>end_time := Some ''00:35:00'', scraped_at := 1762070000\<rparr>]
   \<and> region (row_lmsal_noend\<lparr>end_time := Some ''00:35:00'', scraped_at := 1762070000\<rparr>)
       = region row_lmsal_noend"
proof -
  let ?r = "row_lmsal_noend\<lparr>end_time := Some ''00:35:00'', scraped_at := 1762070000\<rparr>"
  have h1: "find_existing strptime_utc lmsal_4275 ''LMSAL''
         (magnitude_match (flare_class lmsal_4275))
         (existing_candidates (magnitude_match (flare_class lmsal_4275)) lmsal_4275 db_noend)
       = Some row_lmsal_noend"
    by code_simp
  have h2: "''LMSAL'' = source row_lmsal_noend"
    by (simp add: row_lmsal_noend_def row_lmsal_def new_row_def)
  have h3: "distinct (map row_id (rows db_noend))"
    by (simp add: db_noend_def)
  have st: "rows (fst (store_flare strptime_utc ''LMSAL'' 1762070000 (db_noend, 0, 0) lmsal_4275))
      = [?r]"
    by code_simp
  then have h4: "?r \<in> set (rows (fst (store_flare strptime_utc ''LMSAL'' 1762070000
        (db_noend, 0, 0) lmsal_4275)))"
    by simp
  have h5: "row_id ?r = row_id row_lmsal_noend" by simp
  have t: "truthy_str (region lmsal_4275)" "truthy_str (region row_lmsal_noend)"
    by (simp_all add: lmsal_4275_def row_lmsal_noend_def row_lmsal_def new_row_def
        lmsal_m11_def truthy_str_def)
  from equal_precision_keeps_existing [OF h1 h2 h3 h4 h5] t
  have "region ?r = region row_lmsal_noend" by blast
  with h2 t st show ?thesis by simp
qed

text \<open>
  The claim as written fails: the later LMSAL report carries region 4275, the stored LMSAL
  row carries region 4274; the merge fills the end time and leaves region 4274.
\<close>

theorem equal_precision_counterexample:
  "source row_lmsal_noend = ''LMSAL'' \<and> region row_lmsal_noend = Some ''4274''
   \<and> region lmsal_4275 = Some ''4275''
   \<and> match_reason strptime_utc lmsal_4275 ''LMSAL'' row_lmsal_noend = Some 1
   \<and> store_flare strptime_utc ''LMSAL'' 1762070000 (db_noend, 0, 0) lmsal_4275 =
       (\<lparr> rows = [row_lmsal_noend\<lparr>end_time := Some ''00:35:00'', scraped_at := 1762070000\<rparr>],
          seq = 4 \<rparr>, 0, 1)
   \<and> region (row_lmsal_noend\<lparr>end_time := Some ''00:35:00'', scraped_at := 1762070000\<rparr>)
       = Some ''4274''"
  by code_simp

section \<open>Flare summary: the strongest flare\<close>









lemma max_by_key_mem: "max_by_key best xs \<in> set (best # xs)"
  by (induction xs arbitrary: best) (auto split: if_splits)





lemma those_map_None_iff:
  "those (map f xs) = None \<longleftrightarrow> (\<exists>x \<in> set xs. f x = None)"
  by (induction xs) (auto split: option.splits)


lemma strongest_raises:
  "strongest flares = Inl ValueError \<longleftrightarrow>
     (\<exists>g \<in> set flares. flare_strength (d_flare_class g) = None)"
proof -
  have "strongest flares = Inl ValueError \<longleftrightarrow>
      those (map (\<lambda>f. flare_strength (d_flare_class f)) flares) = None"
    by (simp add: strongest_def split: option.splits list.splits)
  then show ?thesis by (simp only: those_map_None_iff)
qed











section \<open>CME queries: the arrival window\<close>

lemma arrival_between_iff:
  "arrival_between lo hi m \<longleftrightarrow> (\<exists>t. earth_arrival_timestamp m = Some t \<and> lo \<le> t \<and> t \<le> hi)"
  by (auto simp: arrival_between_def split: option.splits)

lemma set_get_cmes_with_arrivals_in_window:
  "fst ` set (get_cmes_with_arrivals_in_window db T0 T1 U) =
     {c \<in> set (cmes_enhanced db).
        \<exists>a \<in> set (cme_analyses db). \<exists>m \<in> set (cme_model_runs db).
          a_cme_id a = cme_id c \<and> m_analysis_id m = a_id a
          \<and> arrival_between (T0 - 3600 * U) (T1 + 3600 * U) m}"
proof -
  let ?ok = "\<lambda>c a m. cme_id c = a_cme_id a \<and> a_id a = m_analysis_id m
          \<and> arrival_between (T0 - 3600 * U) (T1 + 3600 * U) m"
  let ?joined = "concat (map (\<lambda>c. concat (map (\<lambda>a. concat (map (\<lambda>m.
      if ?ok c a m then [c] else []) (cme_model_runs db))) (cme_analyses db))) (cmes_enhanced db))"
  have j: "set ?joined = {c \<in> set (cmes_enhanced db).
        \<exists>a \<in> set (cme_analyses db). \<exists>m \<in> set (cme_model_runs db).
          a_cme_id a = cme_id c \<and> m_analysis_id m = a_id a
          \<and> arrival_between (T0 - 3600 * U) (T1 + 3600 * U) m}"
    (is "?L = ?R")
  proof
    show "?L \<subseteq> ?R"
    proof
      fix c assume "c \<in> ?L"
      then obtain a m where h: "c \<in> set (cmes_enhanced db)" "a \<in> set (cme_analyses db)"
        "m \<in> set (cme_model_runs db)" "?ok c a m"
        by (auto split: if_splits)
      from h(4) have "a_cme_id a = cme_id c" "m_analysis_id m = a_id a"
        "arrival_between (T0 - 3600 * U) (T1 + 3600 * U) m"
        by simp_all
      with h(1,2,3) show "c \<in> ?R" by blast
    qed
    show "?R \<subseteq> ?L"
    proof
      fix c assume "c \<in> ?R"
      then obtain a m where h: "c \<in> set (cmes_enhanced db)" "a \<in> set (cme_analyses db)"
        "m \<in> set (cme_model_runs db)" "a_cme_id a = cme_id c" "m_analysis_id m = a_id a"
        "arrival_between (T0 - 3600 * U) (T1 + 3600 * U) m" by blast
      from h(4,5,6) have "?ok c a m" by simp
      with h(3) have "c \<in> set (concat (map (\<lambda>m. if ?ok c a m then [c] else [])
          (cme_model_runs db)))"
        by (auto intro!: bexI [of _ m])
      with h(2) have "c \<in> set (concat (map (\<lambda>a. concat (map (\<lambda>m.
          if ?ok c a m then [c] else []) (cme_model_runs db))) (cme_analyses db)))"
        by (auto intro!: bexI [of _ a])
      with h(1) show "c \<in> ?L"
        by (auto intro!: bexI [of _ c])
    qed
  qed
  have "fst ` set (get_cmes_with_arrivals_in_window db T0 T1 U) = set ?joined"
    by (simp add: get_cmes_with_arrivals_in_window_def Let_def image_image)
  with j show ?thesis by simp
qed

lemma tree_get_cmes_with_arrivals_in_window:
  "(c, tree) \<in> set (get_cmes_with_arrivals_in_window db T0 T1 U) \<Longrightarrow>
     tree = get_analyses_for_cme db (cme_id c)"
  by (auto simp: get_cmes_with_arrivals_in_window_def Let_def)

lemma distinct_get_cmes_with_arrivals_in_window:
  "distinct (map fst (get_cmes_with_arrivals_in_window db T0 T1 U))"
  by (simp add: get_cmes_with_arrivals_in_window_def Let_def o_def)

lemma analyses_of_tree:
  "fst ` set (get_analyses_for_cme db cid) = {a \<in> set (cme_analyses db). a_cme_id a = cid}"
  by (auto simp: get_analyses_for_cme_def image_iff)

lemma runs_of_tree:
  "(a, runs) \<in> set (get_analyses_for_cme db cid) \<Longrightarrow>
     fst ` set runs = {m \<in> set (cme_model_runs db). m_analysis_id m = a_id a}"
  by (auto simp: get_analyses_for_cme_def model_runs_of_def image_iff)

lemma impacts_of_tree:
  "(a, runs) \<in> set (get_analyses_for_cme db cid) \<Longrightarrow> (m, imps) \<in> set runs \<Longrightarrow>
     set imps = {i \<in> set (cme_spacecraft_impacts db). i_model_run_id i = m_id m}"
  by (auto simp: get_analyses_for_cme_def model_runs_of_def spacecraft_impacts_of_def)

text \<open>
  Claim C5. A CME row is returned by the arrival-window query for \<open>[T0, T1]\<close> and margin
  \<open>U\<close> hours exactly when some model run of one of its analyses has an
  \<^verbatim>\<open>earth_arrival_timestamp\<close> in \<open>[T0 - U, T1 + U]\<close>; a CME without such a run is left out
  even when its own start lies in the window; a returned CME appears once and carries all
  its analyses, each with all its model runs, each with all its spacecraft impacts.
\<close>

theorem arrival_window_query:
  "(c \<in> fst ` set (get_cmes_with_arrivals_in_window db T0 T1 U) \<longleftrightarrow>
      c \<in> set (cmes_enhanced db) \<and>
      (\<exists>a \<in> set (cme_analyses db). \<exists>m \<in> set (cme_model_runs db).
         a_cme_id a = cme_id c \<and> m_analysis_id m = a_id a \<and>
         (\<exists>t. earth_arrival_timestamp m = Some t \<and> T0 - 3600 * U \<le> t \<and> t \<le> T1 + 3600 * U)))
   \<and> (T0 \<le> start_timestamp c \<and> start_timestamp c \<le> T1 \<and>
       \<not> (\<exists>a \<in> set (cme_analyses db). \<exists>m \<in> set (cme_model_runs db).
            a_cme_id a = cme_id c \<and> m_analysis_id m = a_id a \<and>
            (\<exists>t. earth_arrival_timestamp m = Some t \<and> T0 - 3600 * U \<le> t \<and> t \<le> T1 + 3600 * U))
       \<longrightarrow> c \<notin> fst ` set (get_cmes_with_arrivals_in_window db T0 T1 U))
   \<and> distinct (map fst (get_cmes_with_arrivals_in_window db T0 T1 U))
   \<and> (\<forall>(c', tree) \<in> set (get_cmes_with_arrivals_in_window db T0 T1 U).
         tree = get_analyses_for_cme db (cme_id c')
         \<and> fst ` set tree = {a \<in> set (cme_analyses db). a_cme_id a = cme_id c'}
         \<and> (\<forall>(a, runs) \<in> set tree.
               fst ` set runs = {m \<in> set (cme_model_runs db). m_analysis_id m = a_id a}
               \<and> (\<forall>(m, imps) \<in> set runs.
                     set imps = {i \<in> set (cme_spacecraft_impacts db). i_model_run_id i = m_id m})))"
proof -
  let ?q = "\<exists>a \<in> set (cme_analyses db). \<exists>m \<in> set (cme_model_runs db).
         a_cme_id a = cme_id c \<and> m_analysis_id m = a_id a \<and>
         (\<exists>t. earth_arrival_timestamp m = Some t \<and> T0 - 3600 * U \<le> t \<and> t \<le> T1 + 3600 * U)"
  have iff: "c \<in> fst ` set (get_cmes_with_arrivals_in_window db T0 T1 U) \<longleftrightarrow>
      c \<in> set (cmes_enhanced db) \<and> ?q"
    unfolding set_get_cmes_with_arrivals_in_window arrival_between_iff
    by (simp only: mem_Collect_eq)
  have ex: "T0 \<le> start_timestamp c \<and> start_timestamp c \<le> T1 \<and> \<not> ?q
       \<longrightarrow> c \<notin> fst ` set (get_cmes_with_arrivals_in_window db T0 T1 U)"
    using iff by blast
  have d: "distinct (map fst (get_cmes_with_arrivals_in_window db T0 T1 U))"
    by (rule distinct_get_cmes_with_arrivals_in_window)
  have tr: "\<forall>(c', tree) \<in> set (get_cmes_with_arrivals_in_window db T0 T1 U).
         tree = get_analyses_for_cme db (cme_id c')
         \<and> fst ` set tree = {a \<in> set (cme_analyses db). a_cme_id a = cme_id c'}
         \<and> (\<forall>(a, runs) \<in> set tree.
               fst ` set runs = {m \<in> set (cme_model_runs db). m_analysis_id m = a_id a}
               \<and> (\<forall>(m, imps) \<in> set runs.
                     set imps = {i \<in> set (cme_spacecraft_impacts db). i_model_run_id i = m_id m}))"
  proof (intro ballI, clarify)
    fix c' tree
    assume "(c', tree) \<in> set (get_cmes_with_arrivals_in_window db T0 T1 U)"
    then have t: "tree = get_analyses_for_cme db (cme_id c')"
      by (rule tree_get_cmes_with_arrivals_in_window)
    have 1: "fst ` set tree = {a \<in> set (cme_analyses db). a_cme_id a = cme_id c'}"
      unfolding t by (rule analyses_of_tree)
    have 2: "\<forall>(a, runs) \<in> set tree.
               fst ` set runs = {m \<in> set (cme_model_runs db). m_analysis_id m = a_id a}
               \<and> (\<forall>(m, imps) \<in> set runs.
                     set imps = {i \<in> set (cme_spacecraft_impacts db). i_model_run_id i = m_id m})"
    proof (intro ballI, clarify)
      fix a runs
      assume "(a, runs) \<in> set tree"
      then have ar: "(a, runs) \<in> set (get_analyses_for_cme db (cme_id c'))"
        unfolding t .
      have r: "fst ` set runs = {m \<in> set (cme_model_runs db). m_analysis_id m = a_id a}"
        using ar by (rule runs_of_tree)
      have i: "\<forall>(m, imps) \<in> set runs.
          set imps = {i \<in> set (cme_spacecraft_impacts db). i_model_run_id i = m_id m}"
        using impacts_of_tree [OF ar] by blast
      from r i show "fst ` set runs = {m \<in> set (cme_model_runs db). m_analysis_id m = a_id a}
          \<and> (\<forall>(m, imps) \<in> set runs.
                set imps = {i \<in> set (cme_spacecraft_impacts db). i_model_run_id i = m_id m})"
        by (rule conjI)
    qed
    from t 1 2 show "tree = get_analyses_for_cme db (cme_id c')
         \<and> fst ` set tree = {a \<in> set (cme_analyses db). a_cme_id a = cme_id c'}
         \<and> (\<forall>(a, runs) \<in> set tree.
               fst ` set runs = {m \<in> set (cme_model_runs db). m_analysis_id m = a_id a}
               \<and> (\<forall>(m, imps) \<in> set runs.
                     set imps = {i \<in> set (cme_spacecraft_impacts db). i_model_run_id i = m_id m}))"
      by (intro conjI)
  qed
  from iff ex d tr show ?thesis by (intro conjI)
qed

section \<open>CME store and queries on the example catalog\<close>

lemma store_cme_001_once:
  "store_cme fromisoformat_utc example_hash 1762300000 cme_001 empty_cme_db = (Some 1, db_once)"
  by code_simp

lemma store_cme_001_twice:
  "store_cme fromisoformat_utc example_hash 1762300000 cme_001 db_once = (Some 2, db_twice)"
  by code_simp

lemma store_cme_002:
  "store_cme fromisoformat_utc example_hash 1762300000 cme_002 db_once = (Some 2, db_both)"
  by code_simp

theorem arrival_window_query_witness:
  "store_cme fromisoformat_utc example_hash 1762300000 cme_002 db_once = (Some 2, db_both)
   \<and> cme_row_1 \<in> fst ` set (get_cmes_with_arrivals_in_window db_both 1762187160 1762215960 7)
   \<and> 1762187160 \<le> start_timestamp cme_row_2 \<and> start_timestamp cme_row_2 \<le> 1762215960
   \<and> cme_row_2 \<notin> fst ` set (get_cmes_with_arrivals_in_window db_both 1762187160 1762215960 7)
   \<and> get_cmes_with_arrivals_in_window db_both 1762187160 1762215960 7 =
       [(cme_row_1, [(analysis_row_1, [(run_row_1, [impact_row_1])])])]
   \<and> get_analyses_for_cme db_both (cme_id cme_row_1) =
       [(analysis_row_1, [(run_row_1, [impact_row_1])])]
   \<and> get_cmes_with_arrivals_in_window db_both 1762187160 1762215960 0 = []"
proof -
  let ?lo = "1762187160 - 3600 * 7 :: int"
  let ?hi = "1762215960 + 3600 * 7 :: int"
  have m1: "cme_row_1 \<in> set (cmes_enhanced db_both)"
    by (simp add: db_both_def)
  have q1: "\<exists>a \<in> set (cme_analyses db_both). \<exists>m \<in> set (cme_model_runs db_both).
      a_cme_id a = cme_id cme_row_1 \<and> m_analysis_id m = a_id a
      \<and> (\<exists>t. earth_arrival_timestamp m = Some t \<and> ?lo \<le> t \<and> t \<le> ?hi)"
    by (simp add: db_both_def cme_row_1_def cme_row_2_def analysis_row_1_def
        analysis_row_2_def run_row_1_def)
  have q2: "\<not> (\<exists>a \<in> set (cme_analyses db_both). \<exists>m \<in> set (cme_model_runs db_both).
      a_cme_id a = cme_id cme_row_2 \<and> m_analysis_id m = a_id a
      \<and> (\<exists>t. earth_arrival_timestamp m = Some t \<and> ?lo \<le> t \<and> t \<le> ?hi))"
    by (simp add: db_both_def cme_row_1_def cme_row_2_def analysis_row_1_def
        analysis_row_2_def run_row_1_def)
  have w: "1762187160 \<le> start_timestamp cme_row_2" "start_timestamp cme_row_2 \<le> 1762215960"
    by (simp_all add: cme_row_2_def)
  note t = arrival_window_query [of _ db_both 1762187160 1762215960 7]
  have r1: "cme_row_1 \<in> fst ` set (get_cmes_with_arrivals_in_window db_both 1762187160 1762215960 7)"
    using t [of cme_row_1, THEN conjunct1] m1 q1 by blast
  have r2: "cme_row_2 \<notin> fst ` set (get_cmes_with_arrivals_in_window db_both 1762187160 1762215960 7)"
    using t [of cme_row_2, THEN conjunct2, THEN conjunct1] w q2 by blast
  have res: "get_cmes_with_arrivals_in_window db_both 1762187160 1762215960 7 =
       [(cme_row_1, [(analysis_row_1, [(run_row_1, [impact_row_1])])])]"
    by code_simp
  then have "(cme_row_1, [(analysis_row_1, [(run_row_1, [impact_row_1])])])
      \<in> set (get_cmes_with_arrivals_in_window db_both 1762187160 1762215960 7)"
    by simp
  with t [of cme_row_1, THEN conjunct2, THEN conjunct2, THEN conjunct2]
  have tree: "[(analysis_row_1, [(run_row_1, [impact_row_1])])] =
      get_analyses_for_cme db_both (cme_id cme_row_1)"
    by blast
  have zero: "get_cmes_with_arrivals_in_window db_both 1762187160 1762215960 0 = []"
    by code_simp
  from store_cme_002 r1 w r2 res tree [symmetric] zero show ?thesis by (intro conjI)
qed

text \<open>
  Claim C1 fails on the code: storing the same CME a second time replaces the CME row and
  the analysis row, each under a new id, so that the model run of the second call meets no
  row with its analysis id and run number and the first call's model run stays; the table
  of impacts has no uniqueness constraint at all. Model runs and impacts are doubled.
\<close>

theorem store_cme_twice_row_counts:
  "store_cme fromisoformat_utc example_hash 1762300000 cme_001 empty_cme_db = (Some 1, db_once)
   \<and> store_cme fromisoformat_utc example_hash 1762300000 cme_001 db_once = (Some 2, db_twice)
   \<and> row_counts db_once = (1, 1, 1, 1) \<and> row_counts db_twice = (1, 1, 2, 2)"
proof -
  have c1: "row_counts db_once = (1, 1, 1, 1)"
    by (simp add: row_counts_def db_once_def)
  have c2: "row_counts db_twice = (1, 1, 2, 2)"
    by (simp add: row_counts_def db_twice_def)
  from store_cme_001_once store_cme_001_twice c1 c2 show ?thesis by (intro conjI)
qed

end
